theory Spec2Isabelle
  imports Main "HOL-Library.Multiset" "HOL-Library.AList"
begin

section \<open>Game-hook discovery and class matching (src/ast/highSpellWalker.ts)\<close>

subsection \<open>JavaScript containers\<close>

text \<open>
  A JavaScript \<open>Set<string>\<close> is modelled as the list of its elements in insertion
  order: \<open>Array.from(s)\<close> is the list itself, \<open>s.has(x)\<close> is membership, \<open>s.size\<close>
  is the length, and \<open>s.add(x)\<close> appends \<open>x\<close> unless it is already there. Lists built
  with \<open>set_add\<close> from the empty list are distinct.
\<close>

definition set_add :: "'a \<Rightarrow> 'a list \<Rightarrow> 'a list" where
  "set_add x xs = (if x \<in> set xs then xs else xs @ [x])"

subsection \<open>Data model\<close>

record GameHookDependency =
  d_hookName :: string
  propertyChain :: "string list"
  fullExpression :: string
  d_file :: string
  line :: nat
  isDirect :: bool
  sourceVariable :: "string option"

text \<open>One entry of \<open>GameHookUsage\<close>, the value stored under a hook name.\<close>

record HookUsage =
  u_properties :: "string list"
  u_methods :: "string list"
  u_fullExpressions :: "string list"
  u_files :: "string list"
  fromDirectAccess :: bool
  fromHookRegistration :: bool

record ClientClass =
  name :: string
  properties :: "string list"
  methods :: "string list"
  staticProperties :: "string list"
  staticMethods :: "string list"
  hasInstance :: bool
  hasManager :: bool

record ClassMatch =
  hookName :: string
  clientClassName :: string
  matchScore :: int
  matchedProperties :: "string list"
  matchedMethods :: "string list"
  missingProperties :: "string list"
  missingMethods :: "string list"

text \<open>The optional array fields of \<open>KnownClassInfo\<close> are \<open>None\<close> when absent.\<close>

record KnownClassInfo =
  k_className :: string
  k_methods :: "string list option"
  k_properties :: "string list option"
  k_staticMethods :: "string list option"
  k_staticProperties :: "string list option"
  k_description :: "string option"

definition knownClassInfo :: "KnownClassInfo list" where
  "knownClassInfo =
     [\<lparr>k_className = ''ChatManager'',
       k_methods = None,
       k_properties = Some [''Instance'', ''_friends''],
       k_staticMethods = None,
       k_staticProperties = Some [''Instance''],
       k_description = Some ''Manages chat functionality and friends list''\<rparr>]"

subsection \<open>Match scorer: \<open>calculateMatchScore\<close>\<close>

text \<open>
  The five locals \<open>score\<close>, \<open>matchedProperties\<close>, \<open>matchedMethods\<close>,
  \<open>missingProperties\<close> and \<open>missingMethods\<close> of the source are the fields of the
  \<open>ClassMatch\<close> under construction; every loop body is a step on that record.
\<close>

definition hasProperty :: "ClientClass \<Rightarrow> string \<Rightarrow> bool" where
  "hasProperty clientClass prop \<longleftrightarrow>
     prop \<in> set (properties clientClass) \<or> prop \<in> set (staticProperties clientClass)"

definition hasMethod :: "ClientClass \<Rightarrow> string \<Rightarrow> bool" where
  "hasMethod clientClass method \<longleftrightarrow>
     method \<in> set (methods clientClass) \<or> method \<in> set (staticMethods clientClass)"

definition requiredPropertyStep :: "ClientClass \<Rightarrow> string \<Rightarrow> ClassMatch \<Rightarrow> ClassMatch" where
  "requiredPropertyStep clientClass prop m =
     (if hasProperty clientClass prop
      then m\<lparr>matchedProperties := matchedProperties m @ [prop], matchScore := matchScore m + 2\<rparr>
      else m\<lparr>missingProperties := missingProperties m @ [prop]\<rparr>)"

definition requiredMethodStep :: "ClientClass \<Rightarrow> string \<Rightarrow> ClassMatch \<Rightarrow> ClassMatch" where
  "requiredMethodStep clientClass method m =
     (if hasMethod clientClass method
      then m\<lparr>matchedMethods := matchedMethods m @ [method], matchScore := matchScore m + 1\<rparr>
      else m\<lparr>missingMethods := missingMethods m @ [method]\<rparr>)"

text \<open>
  The four loops over the curated table. In each, the guard
  \<open>!matchedProperties.includes(prop)\<close> encloses the \<open>push\<close> only; the
  \<open>score += ...\<close> statement follows it, outside the guard.
\<close>

definition knownPropertyStep ::
  "string list \<Rightarrow> ClientClass \<Rightarrow> string \<Rightarrow> ClassMatch \<Rightarrow> ClassMatch" where
  "knownPropertyStep requiredProperties clientClass prop m =
     (if hasProperty clientClass prop
      then (if prop \<notin> set (matchedProperties m)
            then m\<lparr>matchedProperties := matchedProperties m @ [prop]\<rparr>
            else m)\<lparr>matchScore := matchScore m + 3\<rparr>
      else if prop \<notin> set requiredProperties
      then m\<lparr>missingProperties := missingProperties m @ [prop]\<rparr>
      else m)"

definition knownStaticPropertyStep ::
  "string list \<Rightarrow> ClientClass \<Rightarrow> string \<Rightarrow> ClassMatch \<Rightarrow> ClassMatch" where
  "knownStaticPropertyStep requiredProperties clientClass prop m =
     (if prop \<in> set (staticProperties clientClass)
      then (if prop \<notin> set (matchedProperties m)
            then m\<lparr>matchedProperties := matchedProperties m @ [prop]\<rparr>
            else m)\<lparr>matchScore := matchScore m + 3\<rparr>
      else if prop \<notin> set requiredProperties
      then m\<lparr>missingProperties := missingProperties m @ [prop]\<rparr>
      else m)"

definition knownMethodStep ::
  "string list \<Rightarrow> ClientClass \<Rightarrow> string \<Rightarrow> ClassMatch \<Rightarrow> ClassMatch" where
  "knownMethodStep requiredMethods clientClass method m =
     (if hasMethod clientClass method
      then (if method \<notin> set (matchedMethods m)
            then m\<lparr>matchedMethods := matchedMethods m @ [method]\<rparr>
            else m)\<lparr>matchScore := matchScore m + 2\<rparr>
      else if method \<notin> set requiredMethods
      then m\<lparr>missingMethods := missingMethods m @ [method]\<rparr>
      else m)"

definition knownStaticMethodStep ::
  "string list \<Rightarrow> ClientClass \<Rightarrow> string \<Rightarrow> ClassMatch \<Rightarrow> ClassMatch" where
  "knownStaticMethodStep requiredMethods clientClass method m =
     (if method \<in> set (staticMethods clientClass)
      then (if method \<notin> set (matchedMethods m)
            then m\<lparr>matchedMethods := matchedMethods m @ [method]\<rparr>
            else m)\<lparr>matchScore := matchScore m + 2\<rparr>
      else if method \<notin> set requiredMethods
      then m\<lparr>missingMethods := missingMethods m @ [method]\<rparr>
      else m)"

text \<open>\<open>if (knownInfo.field) { for (const x of knownInfo.field) ... }\<close>\<close>

definition forOptional :: "('a \<Rightarrow> 's \<Rightarrow> 's) \<Rightarrow> 'a list option \<Rightarrow> 's \<Rightarrow> 's" where
  "forOptional step field s = (case field of None \<Rightarrow> s | Some xs \<Rightarrow> fold step xs s)"

definition checkKnownInfo ::
  "string list \<Rightarrow> string list \<Rightarrow> ClientClass \<Rightarrow> KnownClassInfo \<Rightarrow> ClassMatch \<Rightarrow> ClassMatch" where
  "checkKnownInfo requiredProperties requiredMethods clientClass knownInfo m =
     forOptional (knownStaticMethodStep requiredMethods clientClass) (k_staticMethods knownInfo)
       (forOptional (knownMethodStep requiredMethods clientClass) (k_methods knownInfo)
         (forOptional (knownStaticPropertyStep requiredProperties clientClass)
            (k_staticProperties knownInfo)
           (forOptional (knownPropertyStep requiredProperties clientClass)
              (k_properties knownInfo) m)))"

definition bonusPoints :: "string list \<Rightarrow> ClientClass \<Rightarrow> int" where
  "bonusPoints requiredProperties clientClass =
     (if ''Instance'' \<in> set requiredProperties \<and> hasInstance clientClass then 5 else 0) +
     (if ''Manager'' \<in> set requiredProperties \<and> hasManager clientClass then 3 else 0)"

definition calculateMatchScore :: "HookUsage \<Rightarrow> ClientClass \<Rightarrow> string \<Rightarrow> ClassMatch" where
  "calculateMatchScore hookUsage clientClass hookName' =
     (let requiredProperties = u_properties hookUsage;
          requiredMethods = u_methods hookUsage;
          m0 = \<lparr>hookName = hookName', clientClassName = name clientClass, matchScore = 0,
                matchedProperties = [], matchedMethods = [],
                missingProperties = [], missingMethods = []\<rparr>;
          m1 = fold (requiredPropertyStep clientClass) requiredProperties m0;
          m2 = fold (requiredMethodStep clientClass) requiredMethods m1;
          m3 = (case find (\<lambda>info. k_className info = hookName') knownClassInfo of
                  None \<Rightarrow> m2
                | Some knownInfo \<Rightarrow>
                    checkKnownInfo requiredProperties requiredMethods clientClass knownInfo m2)
      in m3\<lparr>matchScore := matchScore m3 + bonusPoints requiredProperties clientClass\<rparr>)"

text \<open>
  The candidate loop of \<open>analyzeGameHookDependencies\<close>: score every recovered class,
  keep the matches with a positive score, and sort them by descending score.
  \<open>Array.prototype.sort\<close> is stable, as is \<open>sort_key\<close>.
\<close>

definition rankMatches :: "HookUsage \<Rightarrow> ClientClass list \<Rightarrow> string \<Rightarrow> ClassMatch list" where
  "rankMatches hookUsage clientClasses mappedName =
     sort_key (\<lambda>m. - matchScore m)
       (filter (\<lambda>m. matchScore m > 0)
          (map (\<lambda>clientClass. calculateMatchScore hookUsage clientClass mappedName)
             clientClasses))"

subsection \<open>Syntax trees of the first-party sources\<close>

text \<open>
  The TypeScript parser is an external library; the model starts from the tree it returns.
  A node carries what the analysis reads (\<open>ts.isXxx\<close> tests, \<open>text\<close>, \<open>name.text\<close>,
  \<open>arguments\<close>, \<open>initializer\<close>) and its children in the order of \<open>ts.forEachChild\<close>.
  The number stored in a property access, call or variable declaration is the zero-based
  line of \<open>node.getStart()\<close>. The name of a property access is an identifier node; it is
  kept as its text, since visiting an identifier does nothing. Every other kind of node
  (source file, statements, tokens, \<open>this\<close>, literals, types) is a \<open>TsOther\<close> with its
  children.
\<close>

datatype tsnode =
    TsIdentifier string
  | TsStringLiteral string
  | TsPropertyAccessExpression nat tsnode string
  | TsCallExpression nat tsnode "tsnode list" "tsnode list"
  | TsVariableDeclaration nat tsnode "tsnode option" "tsnode option"
  | TsFunctionDeclaration "tsnode list"
  | TsFunctionExpression "tsnode list"
  | TsArrowFunction "tsnode list"
  | TsBlock "tsnode list"
  | TsOther "tsnode list"

text \<open>
  \<open>chain[chain.length - 1] += '()'\<close>: on an empty array this writes the property \<open>-1\<close>
  and leaves the array empty.
\<close>

definition markCall :: "string list \<Rightarrow> string list" where
  "markCall chain = (if chain = [] then [] else butlast chain @ [last chain @ ''()''])"

fun extractPropertyChain :: "tsnode \<Rightarrow> string list" where
  "extractPropertyChain (TsPropertyAccessExpression l e n) = extractPropertyChain e @ [n]"
| "extractPropertyChain (TsIdentifier t) = [t]"
| "extractPropertyChain (TsCallExpression l e tas as) = markCall (extractPropertyChain e)"
| "extractPropertyChain _ = []"

definition isGameHooksAccess :: "string list \<Rightarrow> bool" where
  "isGameHooksAccess chain \<longleftrightarrow>
     (length chain \<ge> 4 \<and> chain ! 0 = ''document'' \<and> chain ! 1 = ''highlite'' \<and>
        chain ! 2 = ''gameHooks'') \<or>
     (length chain \<ge> 3 \<and> chain ! 0 = ''highlite'' \<and> chain ! 1 = ''gameHooks'') \<or>
     (length chain \<ge> 3 \<and> chain ! 0 = ''this'' \<and> chain ! 1 = ''gameHooks'') \<or>
     (length chain \<ge> 2 \<and> chain ! 0 = ''gameHooks'')"

text \<open>\<open>startIndex\<close> is \<open>None\<close> where the source has \<open>-1\<close>.\<close>

definition getHookNameAndProperties :: "string list \<Rightarrow> string \<times> string list" where
  "getHookNameAndProperties chain =
     (let startIndex =
        (if length chain \<ge> 4 \<and> chain ! 0 = ''document'' \<and> chain ! 1 = ''highlite'' \<and>
            chain ! 2 = ''gameHooks'' then Some (3::nat)
         else if length chain \<ge> 3 \<and> chain ! 0 = ''highlite'' \<and> chain ! 1 = ''gameHooks''
         then Some 2
         else if length chain \<ge> 3 \<and> chain ! 0 = ''this'' \<and> chain ! 1 = ''gameHooks''
         then Some 2
         else if length chain \<ge> 2 \<and> chain ! 0 = ''gameHooks'' then Some 1
         else None)
      in case startIndex of
           None \<Rightarrow> ([], [])
         | Some i \<Rightarrow> if i \<ge> length chain then ([], [])
                     else (chain ! i, drop (i + 1) chain))"

fun nodeToString :: "tsnode \<Rightarrow> string" where
  "nodeToString (TsPropertyAccessExpression l e n) = nodeToString e @ ''.'' @ n"
| "nodeToString (TsIdentifier t) = t"
| "nodeToString (TsCallExpression l e tas as) = nodeToString e @ ''()''"
| "nodeToString _ = ''[unknown]''"

subsection \<open>Hook usage extractor: \<open>analyzeFileForGameHooks\<close>\<close>

text \<open>
  The scope identifier is the string \<open>'global'\<close> or \<open>`scope_${n}`\<close>; the two
  constructors stand for these strings, which are different for different \<open>n\<close>.
\<close>

datatype scope = Global | Scope nat

record VariableGameHookReference =
  variableName :: string
  v_hookName :: string
  v_propertyChain :: "string list"
  fullGameHookExpression :: string
  declarationLine :: nat
  v_scope :: scope

text \<open>
  \<open>variableReferences\<close> is a \<open>Map\<close>: an association list with distinct keys, where
  \<open>set\<close> is \<open>AList.update\<close> and \<open>get\<close> is \<open>map_of\<close>. The walk state is the scope
  tracker together with the \<open>dependencies\<close> array.
\<close>

record ScopeTracker =
  currentScope :: scope
  scopeCounter :: nat
  variableReferences :: "(string \<times> VariableGameHookReference) list"

record walk_state = ScopeTracker +
  dependencies :: "GameHookDependency list"

definition enterScope :: "walk_state \<Rightarrow> walk_state" where
  "enterScope s = s\<lparr>scopeCounter := scopeCounter s + 1,
                    currentScope := Scope (scopeCounter s + 1)\<rparr>"

definition exitScope :: "walk_state \<Rightarrow> walk_state" where
  "exitScope s = s\<lparr>variableReferences :=
                      filter (\<lambda>(key, ref). v_scope ref \<noteq> currentScope s) (variableReferences s),
                   currentScope := Global\<rparr>"

fun isScopeNode :: "tsnode \<Rightarrow> bool" where
  "isScopeNode (TsFunctionDeclaration cs) = True"
| "isScopeNode (TsFunctionExpression cs) = True"
| "isScopeNode (TsArrowFunction cs) = True"
| "isScopeNode (TsBlock cs) = True"
| "isScopeNode _ = False"

text \<open>
  A variable declaration whose initializer is a game-hook access. The empty string is
  falsy in \<open>if (variableName)\<close> and \<open>if (hookName)\<close>.
\<close>

fun declarationStep :: "string \<Rightarrow> tsnode \<Rightarrow> walk_state \<Rightarrow> walk_state" where
  "declarationStep filePath (TsVariableDeclaration l (TsIdentifier variableName') ty (Some init)) s =
     (if variableName' \<noteq> [] then
        (let chain = extractPropertyChain init in
         if isGameHooksAccess chain then
           (let (hookName', properties') = getHookNameAndProperties chain in
            if hookName' \<noteq> [] then
              (let lineNumber = l + 1; fullExpression' = nodeToString init in
               s\<lparr>variableReferences :=
                    AList.update variableName'
                      \<lparr>variableName = variableName', v_hookName = hookName',
                        v_propertyChain = properties',
                        fullGameHookExpression = fullExpression',
                        declarationLine = lineNumber, v_scope = currentScope s\<rparr>
                      (variableReferences s),
                  dependencies := dependencies s @
                    [\<lparr>d_hookName = hookName', propertyChain = properties',
                      fullExpression = fullExpression', d_file = filePath, line = lineNumber,
                      isDirect = True, sourceVariable = None\<rparr>]\<rparr>)
            else s)
         else s)
      else s)"
| "declarationStep filePath _ s = s"

definition indirectDependency ::
  "string \<Rightarrow> tsnode \<Rightarrow> nat \<Rightarrow> string \<Rightarrow> string \<Rightarrow> walk_state \<Rightarrow> walk_state" where
  "indirectDependency filePath node l variableName' segment s =
     (case map_of (variableReferences s) variableName' of
        None \<Rightarrow> s
      | Some variableRef \<Rightarrow>
          s\<lparr>dependencies := dependencies s @
              [\<lparr>d_hookName = v_hookName variableRef,
                propertyChain = v_propertyChain variableRef @ [segment],
                fullExpression = nodeToString node, d_file = filePath, line = l + 1,
                isDirect = False, sourceVariable = Some variableName'\<rparr>]\<rparr>)"

text \<open>
  Indirect access through a tracked variable: \<open>x.prop\<close>, \<open>x.method()\<close> and \<open>x()\<close>.
\<close>

fun aliasStep :: "string \<Rightarrow> tsnode \<Rightarrow> walk_state \<Rightarrow> walk_state" where
  "aliasStep filePath (TsPropertyAccessExpression l (TsIdentifier v) propertyName) s =
     indirectDependency filePath (TsPropertyAccessExpression l (TsIdentifier v) propertyName)
       l v propertyName s"
| "aliasStep filePath
     (TsCallExpression l (TsPropertyAccessExpression l' (TsIdentifier v) methodName) tas as) s =
     indirectDependency filePath
       (TsCallExpression l (TsPropertyAccessExpression l' (TsIdentifier v) methodName) tas as)
       l v (methodName @ ''()'') s"
| "aliasStep filePath (TsCallExpression l (TsIdentifier v) tas as) s =
     indirectDependency filePath (TsCallExpression l (TsIdentifier v) tas as) l v ''()'' s"
| "aliasStep filePath _ s = s"

text \<open>
  A property access or call: a direct game-hook access if its chain matches an entry
  pattern (not recorded again when the node is the initializer of its parent variable
  declaration, \<open>isInitializer\<close>), an access through an alias otherwise.
\<close>

definition accessLine :: "tsnode \<Rightarrow> nat option" where
  "accessLine node =
     (case node of
        TsPropertyAccessExpression l e n \<Rightarrow> Some l
      | TsCallExpression l e tas as \<Rightarrow> Some l
      | _ \<Rightarrow> None)"

definition accessStep :: "string \<Rightarrow> bool \<Rightarrow> tsnode \<Rightarrow> walk_state \<Rightarrow> walk_state" where
  "accessStep filePath isInitializer node s =
     (case accessLine node of
        None \<Rightarrow> s
      | Some l \<Rightarrow>
         (let chain = extractPropertyChain node in
          if isGameHooksAccess chain then
            (let (hookName', properties') = getHookNameAndProperties chain in
             if hookName' \<noteq> [] \<and> \<not> isInitializer then
               s\<lparr>dependencies := dependencies s @
                   [\<lparr>d_hookName = hookName', propertyChain = properties',
                     fullExpression = nodeToString node, d_file = filePath, line = l + 1,
                     isDirect = True, sourceVariable = None\<rparr>]\<rparr>
             else s)
          else aliasStep filePath node s))"

definition beforeChildren :: "string \<Rightarrow> bool \<Rightarrow> tsnode \<Rightarrow> walk_state \<Rightarrow> walk_state" where
  "beforeChildren filePath isInitializer node s =
     accessStep filePath isInitializer node
       (declarationStep filePath node (if isScopeNode node then enterScope s else s))"

definition afterChildren :: "tsnode \<Rightarrow> walk_state \<Rightarrow> walk_state" where
  "afterChildren node s = (if isScopeNode node then exitScope s else s)"

text \<open>
  \<open>visit\<close>: the steps before the children, \<open>ts.forEachChild(node, visit)\<close>, the scope
  exit. The flag says whether the node is \<open>parent.initializer\<close> of a variable declaration.
\<close>

fun visit :: "string \<Rightarrow> bool \<Rightarrow> tsnode \<Rightarrow> walk_state \<Rightarrow> walk_state"
  and visitEach :: "string \<Rightarrow> tsnode list \<Rightarrow> walk_state \<Rightarrow> walk_state"
  and visitOptional :: "string \<Rightarrow> bool \<Rightarrow> tsnode option \<Rightarrow> walk_state \<Rightarrow> walk_state" where
  "visit fp b (TsIdentifier t) s =
     afterChildren (TsIdentifier t) (beforeChildren fp b (TsIdentifier t) s)"
| "visit fp b (TsStringLiteral t) s =
     afterChildren (TsStringLiteral t) (beforeChildren fp b (TsStringLiteral t) s)"
| "visit fp b (TsPropertyAccessExpression l e n) s =
     afterChildren (TsPropertyAccessExpression l e n)
       (visit fp False e (beforeChildren fp b (TsPropertyAccessExpression l e n) s))"
| "visit fp b (TsCallExpression l e tas as) s =
     afterChildren (TsCallExpression l e tas as)
       (visitEach fp as (visitEach fp tas
          (visit fp False e (beforeChildren fp b (TsCallExpression l e tas as) s))))"
| "visit fp b (TsVariableDeclaration l nm ty init) s =
     afterChildren (TsVariableDeclaration l nm ty init)
       (visitOptional fp True init (visitOptional fp False ty
          (visit fp False nm (beforeChildren fp b (TsVariableDeclaration l nm ty init) s))))"
| "visit fp b (TsFunctionDeclaration cs) s =
     afterChildren (TsFunctionDeclaration cs)
       (visitEach fp cs (beforeChildren fp b (TsFunctionDeclaration cs) s))"
| "visit fp b (TsFunctionExpression cs) s =
     afterChildren (TsFunctionExpression cs)
       (visitEach fp cs (beforeChildren fp b (TsFunctionExpression cs) s))"
| "visit fp b (TsArrowFunction cs) s =
     afterChildren (TsArrowFunction cs)
       (visitEach fp cs (beforeChildren fp b (TsArrowFunction cs) s))"
| "visit fp b (TsBlock cs) s =
     afterChildren (TsBlock cs) (visitEach fp cs (beforeChildren fp b (TsBlock cs) s))"
| "visit fp b (TsOther cs) s =
     afterChildren (TsOther cs) (visitEach fp cs (beforeChildren fp b (TsOther cs) s))"
| "visitEach fp [] s = s"
| "visitEach fp (n # ns) s = visitEach fp ns (visit fp False n s)"
| "visitOptional fp b None s = s"
| "visitOptional fp b (Some n) s = visit fp b n s"

text \<open>
  The file is \<open>None\<close> when reading it throws: the \<open>catch\<close> logs a warning and the
  empty \<open>dependencies\<close> array is returned.
\<close>

definition initialWalk :: walk_state where
  "initialWalk = \<lparr>currentScope = Global, scopeCounter = 0, variableReferences = [],
                   dependencies = []\<rparr>"

definition analyzeFileForGameHooks :: "string \<Rightarrow> tsnode option \<Rightarrow> GameHookDependency list" where
  "analyzeFileForGameHooks filePath content =
     (case content of
        None \<Rightarrow> []
      | Some sourceFile \<Rightarrow> dependencies (visit filePath False sourceFile initialWalk))"

subsection \<open>Objects used as dictionaries\<close>

text \<open>
  \<open>GameHookUsage\<close> is a plain object indexed by hook name: an association list of its own
  properties in insertion order. Reading \<open>obj[key]\<close> also finds the members every object
  inherits from \<open>Object.prototype\<close>; they are functions or objects, hence truthy, and none
  of them has the fields \<open>methods\<close> or \<open>files\<close>, so that calling \<open>.add\<close> on such a
  field throws a \<open>TypeError\<close>.
\<close>

datatype error = TypeError | FetchError string

definition objectPrototypeKeys :: "string list" where
  "objectPrototypeKeys =
     [''constructor'', ''__defineGetter__'', ''__defineSetter__'', ''hasOwnProperty'',
      ''__lookupGetter__'', ''__lookupSetter__'', ''isPrototypeOf'', ''propertyIsEnumerable'',
      ''toString'', ''valueOf'', ''__proto__'', ''toLocaleString'']"

datatype 'a js_property = Own 'a | Inherited | Absent

definition objGet :: "(string \<times> 'a) list \<Rightarrow> string \<Rightarrow> 'a js_property" where
  "objGet obj key =
     (case map_of obj key of
        Some v \<Rightarrow> Own v
      | None \<Rightarrow> if key \<in> set objectPrototypeKeys then Inherited else Absent)"

text \<open>
  \<open>Object.entries(obj)\<close> lists the own properties whose key is an array index (the
  canonical decimal form of an integer from 0 to 4294967294) first, in ascending numeric
  order, and then the other properties in insertion order.
\<close>

definition isDigit :: "char \<Rightarrow> bool" where
  "isDigit c \<longleftrightarrow> (let n = (of_char c :: nat) in 48 \<le> n \<and> n \<le> 57)"

definition decimalValue :: "string \<Rightarrow> nat" where
  "decimalValue key = fold (\<lambda>c n. 10 * n + (of_char c - 48)) key 0"

definition isArrayIndex :: "string \<Rightarrow> bool" where
  "isArrayIndex key =
     (case key of
        [] \<Rightarrow> False
      | c # cs \<Rightarrow> list_all isDigit key \<and> (cs = [] \<or> c \<noteq> CHR ''0'') \<and>
                  decimalValue key \<le> 4294967294)"

definition objectEntries :: "(string \<times> 'a) list \<Rightarrow> (string \<times> 'a) list" where
  "objectEntries obj =
     sort_key (\<lambda>entry. decimalValue (fst entry)) (filter (\<lambda>entry. isArrayIndex (fst entry)) obj) @
     filter (\<lambda>entry. \<not> isArrayIndex (fst entry)) obj"

text \<open>A loop whose body may throw: the first error ends it.\<close>

fun foldE :: "('a \<Rightarrow> 's \<Rightarrow> error + 's) \<Rightarrow> 'a list \<Rightarrow> 's \<Rightarrow> error + 's" where
  "foldE f [] s = Inr s"
| "foldE f (x # xs) s = (case f x s of Inl e \<Rightarrow> Inl e | Inr s' \<Rightarrow> foldE f xs s')"

subsection \<open>Hook registration extractor: \<open>analyzeFileForHookRegistrations\<close>\<close>

text \<open>The nodes of a tree in the order in which a \<open>visit\<close> function reaches them.\<close>

fun preorder :: "tsnode \<Rightarrow> tsnode list" where
  "preorder (TsIdentifier t) = [TsIdentifier t]"
| "preorder (TsStringLiteral t) = [TsStringLiteral t]"
| "preorder (TsPropertyAccessExpression l e n) =
     TsPropertyAccessExpression l e n # preorder e"
| "preorder (TsCallExpression l e tas as) =
     TsCallExpression l e tas as #
       (preorder e @ concat (map preorder tas) @ concat (map preorder as))"
| "preorder (TsVariableDeclaration l nm ty init) =
     TsVariableDeclaration l nm ty init #
       (preorder nm @ (case ty of None \<Rightarrow> [] | Some t \<Rightarrow> preorder t) @
        (case init of None \<Rightarrow> [] | Some i \<Rightarrow> preorder i))"
| "preorder (TsFunctionDeclaration cs) = TsFunctionDeclaration cs # concat (map preorder cs)"
| "preorder (TsFunctionExpression cs) = TsFunctionExpression cs # concat (map preorder cs)"
| "preorder (TsArrowFunction cs) = TsArrowFunction cs # concat (map preorder cs)"
| "preorder (TsBlock cs) = TsBlock cs # concat (map preorder cs)"
| "preorder (TsOther cs) = TsOther cs # concat (map preorder cs)"

text \<open>
  A call \<open>something.<callee>(a, b, ...)\<close> with at least two arguments of which the first
  two are string literals: the texts of the two literals.
\<close>

fun stringArguments :: "string \<Rightarrow> tsnode \<Rightarrow> (string \<times> string) option" where
  "stringArguments callee
     (TsCallExpression l (TsPropertyAccessExpression l' e n) tas
        (TsStringLiteral a # TsStringLiteral b # rest)) =
     (if n = callee then Some (a, b) else None)"
| "stringArguments callee _ = None"

text \<open>
  The walk runs inside \<open>try\<close>: when a statement throws, the \<open>catch\<close> logs a warning and
  the function returns \<open>hookUsage\<close> as it was at that moment (\<open>thrown\<close>).
\<close>

record registration_state =
  hookUsage :: "(string \<times> HookUsage) list"
  thrown :: bool

definition emptyRegistration :: HookUsage where
  "emptyRegistration =
     \<lparr>u_properties = [], u_methods = [], u_fullExpressions = [], u_files = [],
      fromDirectAccess = False, fromHookRegistration = True\<rparr>"

definition recordRegistration ::
  "string \<Rightarrow> string \<Rightarrow> string \<Rightarrow> registration_state \<Rightarrow> registration_state" where
  "recordRegistration filePath className methodName s =
     (if thrown s then s
      else case objGet (hookUsage s) className of
             Inherited \<Rightarrow> s\<lparr>thrown := True\<rparr>
           | Absent \<Rightarrow>
               s\<lparr>hookUsage := hookUsage s @
                    [(className, emptyRegistration\<lparr>u_methods := [methodName],
                                                   u_files := [filePath]\<rparr>)]\<rparr>
           | Own u \<Rightarrow>
               s\<lparr>hookUsage :=
                    AList.update className
                      (u\<lparr>u_methods := set_add methodName (u_methods u),
                         u_files := set_add filePath (u_files u)\<rparr>)
                      (hookUsage s)\<rparr>)"

definition registrationStep :: "string \<Rightarrow> string \<Rightarrow> tsnode \<Rightarrow> registration_state \<Rightarrow> registration_state" where
  "registrationStep filePath callee node s =
     (case stringArguments callee node of
        None \<Rightarrow> s
      | Some (className, methodName) \<Rightarrow> recordRegistration filePath className methodName s)"

definition visitRegistrations :: "string \<Rightarrow> tsnode \<Rightarrow> registration_state \<Rightarrow> registration_state" where
  "visitRegistrations filePath node s =
     registrationStep filePath ''registerClassOverrideHook'' node
       (registrationStep filePath ''registerClassHook'' node s)"

definition analyzeFileForHookRegistrations ::
  "string \<Rightarrow> tsnode option \<Rightarrow> (string \<times> HookUsage) list" where
  "analyzeFileForHookRegistrations filePath content =
     (case content of
        None \<Rightarrow> []
      | Some sourceFile \<Rightarrow>
          hookUsage (fold (visitRegistrations filePath) (preorder sourceFile)
                       \<lparr>hookUsage = [], thrown = False\<rparr>))"

subsection \<open>Class mappings of the core file: \<open>extractClassMappingsFromCore\<close>\<close>

record ClassMapping =
  m_clientClassName :: string
  m_hookName :: string
  m_methods :: "string list"
  m_file :: string

fun addMappingMethod :: "string \<Rightarrow> string \<Rightarrow> ClassMapping list \<Rightarrow> ClassMapping list" where
  "addMappingMethod h methodName [] = []"
| "addMappingMethod h methodName (m # ms) =
     (if m_hookName m = h then m\<lparr>m_methods := set_add methodName (m_methods m)\<rparr> # ms
      else m # addMappingMethod h methodName ms)"

definition registerHookMapping ::
  "string \<Rightarrow> string \<Rightarrow> string \<Rightarrow> ClassMapping list \<Rightarrow> ClassMapping list" where
  "registerHookMapping filePath h methodName mappings =
     addMappingMethod h methodName
       (case find (\<lambda>m. m_hookName m = h) mappings of
          Some m \<Rightarrow> mappings
        | None \<Rightarrow> mappings @ [\<lparr>m_clientClassName = ''UNKNOWN'', m_hookName = h,
                                m_methods = [], m_file = filePath\<rparr>])"

definition visitMappings :: "string \<Rightarrow> tsnode \<Rightarrow> ClassMapping list \<Rightarrow> ClassMapping list" where
  "visitMappings filePath node mappings =
     (let m1 = (case stringArguments ''registerClass'' node of
                  None \<Rightarrow> mappings
                | Some (clientClassName', hookName') \<Rightarrow>
                    mappings @ [\<lparr>m_clientClassName = clientClassName', m_hookName = hookName',
                                 m_methods = [], m_file = filePath\<rparr>]);
          m2 = (case stringArguments ''registerClassHook'' node of
                  None \<Rightarrow> m1
                | Some (h, methodName) \<Rightarrow> registerHookMapping filePath h methodName m1)
      in case stringArguments ''registerClassOverrideHook'' node of
           None \<Rightarrow> m2
         | Some (h, methodName) \<Rightarrow> registerHookMapping filePath h methodName m2)"

definition extractClassMappingsFromCore :: "string \<Rightarrow> tsnode option \<Rightarrow> ClassMapping list" where
  "extractClassMappingsFromCore filePath content =
     (case content of
        None \<Rightarrow> []
      | Some sourceFile \<Rightarrow> fold (visitMappings filePath) (preorder sourceFile) [])"

subsection \<open>Aggregation into per-hook usage records\<close>

text \<open>\<open>s.includes(t)\<close> and \<open>s.replace(t, r)\<close> for a string pattern \<open>t\<close>.\<close>

fun includesStr :: "string \<Rightarrow> string \<Rightarrow> bool" where
  "includesStr [] t = (t = [])"
| "includesStr (c # cs) t = (take (length t) (c # cs) = t \<or> includesStr cs t)"

fun replaceFirst :: "string \<Rightarrow> string \<Rightarrow> string \<Rightarrow> string" where
  "replaceFirst [] t r = (if t = [] then r else [])"
| "replaceFirst (c # cs) t r =
     (if take (length t) (c # cs) = t then r @ drop (length t) (c # cs)
      else c # replaceFirst cs t r)"

definition classifySegment :: "string \<Rightarrow> HookUsage \<Rightarrow> HookUsage" where
  "classifySegment prop u =
     (if includesStr prop ''()''
      then u\<lparr>u_methods := set_add (replaceFirst prop ''()'' []) (u_methods u)\<rparr>
      else u\<lparr>u_properties := set_add prop (u_properties u)\<rparr>)"

text \<open>The loop over \<open>dep.propertyChain\<close>; its three branches hold the same statement.\<close>

definition segmentStep :: "string list \<Rightarrow> nat \<times> string \<Rightarrow> HookUsage \<Rightarrow> HookUsage" where
  "segmentStep chain ip u =
     (let i = fst ip; prop = snd ip in
      if i = 0 then classifySegment prop u
      else if i = 1 \<and> chain ! 0 = ''Instance'' then classifySegment prop u
      else classifySegment prop u)"

text \<open>
  \<open>relative\<close> stands for \<open>path.relative(projectRoot, _)\<close>. One iteration of the loop
  over \<open>allDependencies\<close>:
\<close>

definition recordDependency ::
  "(string \<Rightarrow> string) \<Rightarrow> GameHookDependency \<Rightarrow> (string \<times> HookUsage) list \<Rightarrow>
     error + (string \<times> HookUsage) list" where
  "recordDependency relative dep usage =
     (case objGet usage (d_hookName dep) of
        Inherited \<Rightarrow> Inl TypeError
      | found \<Rightarrow>
          (let u0 = (case found of
                       Own u \<Rightarrow> u
                     | _ \<Rightarrow> \<lparr>u_properties = [], u_methods = [], u_fullExpressions = [],
                             u_files = [], fromDirectAccess = isDirect dep,
                             fromHookRegistration = False\<rparr>);
               u1 = u0\<lparr>u_files := set_add (relative (d_file dep)) (u_files u0),
                       u_fullExpressions := set_add (fullExpression dep) (u_fullExpressions u0)\<rparr>;
               u2 = (if isDirect dep then u1\<lparr>fromDirectAccess := True\<rparr> else u1);
               u3 = fold (segmentStep (propertyChain dep))
                      (zip [0 ..< length (propertyChain dep)] (propertyChain dep)) u2
           in Inr (AList.update (d_hookName dep) u3 usage)))"

text \<open>
  One iteration of the loop that merges the registrations of a file into
  \<open>allHookRegistrations\<close>. On an inherited key no record is created, and the first
  \<open>.add\<close> throws.
\<close>

definition mergeFileRegistration ::
  "(string \<Rightarrow> string) \<Rightarrow> string \<times> HookUsage \<Rightarrow> (string \<times> HookUsage) list \<Rightarrow>
     error + (string \<times> HookUsage) list" where
  "mergeFileRegistration relative entry allHookRegistrations =
     (let className = fst entry; classUsage = snd entry in
      case objGet allHookRegistrations className of
        Inherited \<Rightarrow>
          if u_methods classUsage = [] \<and> u_files classUsage = []
          then Inr allHookRegistrations else Inl TypeError
      | found \<Rightarrow>
          (let u0 = (case found of Own u \<Rightarrow> u | _ \<Rightarrow> emptyRegistration);
               u1 = u0\<lparr>u_methods := fold set_add (u_methods classUsage) (u_methods u0)\<rparr>;
               u2 = u1\<lparr>u_files := fold (\<lambda>file. set_add (relative file)) (u_files classUsage)
                                      (u_files u1)\<rparr>
           in Inr (AList.update className u2 allHookRegistrations)))"

text \<open>One iteration of the last loop, merging \<open>allHookRegistrations\<close> into \<open>usage\<close>.\<close>

definition mergeRegistration ::
  "string \<times> HookUsage \<Rightarrow> (string \<times> HookUsage) list \<Rightarrow> error + (string \<times> HookUsage) list" where
  "mergeRegistration entry usage =
     (let className = fst entry; classUsage = snd entry in
      case objGet usage className of
        Absent \<Rightarrow> Inr (usage @ [(className, classUsage)])
      | Inherited \<Rightarrow>
          if u_methods classUsage = [] \<and> u_files classUsage = []
          then Inr usage else Inl TypeError
      | Own u \<Rightarrow>
          Inr (AList.update className
                 (u\<lparr>u_methods := fold set_add (u_methods classUsage) (u_methods u),
                    u_files := fold set_add (u_files classUsage) (u_files u),
                    fromHookRegistration := True\<rparr>)
                 usage))"

text \<open>
  The first part of \<open>analyzeGameHookDependencies\<close>: every file, given by its path and its
  syntax tree, contributes its dependencies and its registrations; the usage records are
  built from all dependencies and then completed with the registrations.
\<close>

definition allDependencies :: "(string \<times> tsnode option) list \<Rightarrow> GameHookDependency list" where
  "allDependencies files = concat (map (\<lambda>(file, content). analyzeFileForGameHooks file content) files)"

definition allHookRegistrations ::
  "(string \<Rightarrow> string) \<Rightarrow> (string \<times> tsnode option) list \<Rightarrow> error + (string \<times> HookUsage) list" where
  "allHookRegistrations relative files =
     foldE (mergeFileRegistration relative)
       (concat (map (\<lambda>(file, content).
                       objectEntries (analyzeFileForHookRegistrations file content)) files)) []"

definition collectUsage ::
  "(string \<Rightarrow> string) \<Rightarrow> (string \<times> tsnode option) list \<Rightarrow> error + (string \<times> HookUsage) list" where
  "collectUsage relative files =
     (case allHookRegistrations relative files of
        Inl e \<Rightarrow> Inl e
      | Inr registrations \<Rightarrow>
          (case foldE (recordDependency relative) (allDependencies files) [] of
             Inl e \<Rightarrow> Inl e
           | Inr usage \<Rightarrow> foldE mergeRegistration (objectEntries registrations) usage))"

subsection \<open>Syntax trees of the client bundle\<close>

text \<open>
  The client is parsed by an external parser into an ESTree. A node carries the fields
  the recovery reads and its child nodes in the order in which the tree walker reaches
  them (the order of the node's keys). Every kind of node the recovery does not inspect
  is an \<open>EsOther\<close> with its children.
\<close>

datatype method_kind = KindConstructor | KindMethod | KindGet | KindSet

datatype esnode =
    EsIdentifier string
  | EsThisExpression
  | EsMemberExpression esnode esnode
  | EsFunctionExpression "esnode list"
  | EsClassDeclaration "esnode option" "esnode list"
  | EsVariableDeclarator esnode "esnode option"
  | EsFunctionDeclaration "esnode option" "esnode list"
  | EsMethodDefinition bool method_kind esnode esnode
  | EsAssignmentExpression esnode esnode
  | EsOther "esnode list"

subsection \<open>Client class recoverer: \<open>parseClientForClasses\<close>\<close>

text \<open>\<open>className.length <= 3 && /^[A-Za-z]{1,3}$/.test(className)\<close>\<close>

definition isLetter :: "char \<Rightarrow> bool" where
  "isLetter c \<longleftrightarrow>
     (let n = (of_char c :: nat) in (65 \<le> n \<and> n \<le> 90) \<or> (97 \<le> n \<and> n \<le> 122))"

definition isShortName :: "string \<Rightarrow> bool" where
  "isShortName className \<longleftrightarrow>
     length className \<le> 3 \<and> 1 \<le> length className \<and> list_all isLetter className"

text \<open>
  \<open>classMap\<close> is a \<open>Map\<close> from class name to the class record under construction;
  \<open>currentClass\<close> is the cursor (\<open>None\<close> for \<open>null\<close>).
\<close>

record recovery_state =
  currentClass :: "string option"
  classMap :: "(string \<times> ClientClass) list"

definition emptyClass :: "string \<Rightarrow> ClientClass" where
  "emptyClass className =
     \<lparr>name = className, properties = [], methods = [], staticProperties = [],
      staticMethods = [], hasInstance = False, hasManager = False\<rparr>"

text \<open>\<open>if (!classMap.has(className)) classMap.set(className, {...})\<close>\<close>

definition ensureClass :: "string \<Rightarrow> (string \<times> ClientClass) list \<Rightarrow> (string \<times> ClientClass) list" where
  "ensureClass className cm =
     (case map_of cm className of
        Some c \<Rightarrow> cm
      | None \<Rightarrow> cm @ [(className, emptyClass className)])"

text \<open>A mutation of the record stored under a key that is present.\<close>

definition modifyClass ::
  "string \<Rightarrow> (ClientClass \<Rightarrow> ClientClass) \<Rightarrow> (string \<times> ClientClass) list \<Rightarrow>
     (string \<times> ClientClass) list" where
  "modifyClass className f cm =
     (case map_of cm className of
        Some c \<Rightarrow> AList.update className (f c) cm
      | None \<Rightarrow> cm)"

definition openCandidate :: "string \<Rightarrow> recovery_state \<Rightarrow> recovery_state" where
  "openCandidate className s =
     (if isShortName className
      then s\<lparr>currentClass := Some className, classMap := ensureClass className (classMap s)\<rparr>
      else s)"

text \<open>
  The class the cursor points to, if \<open>currentClass && classMap.has(currentClass)\<close>;
  the empty string is falsy.
\<close>

definition openClass :: "recovery_state \<Rightarrow> string option" where
  "openClass s =
     (case currentClass s of
        None \<Rightarrow> None
      | Some c \<Rightarrow> if c \<noteq> [] \<and> map_of (classMap s) c \<noteq> None then Some c else None)"

text \<open>The rules of the \<open>enter\<close> callback, in the order of the source.\<close>

fun classDeclarationRule :: "esnode \<Rightarrow> recovery_state \<Rightarrow> recovery_state" where
  "classDeclarationRule (EsClassDeclaration (Some (EsIdentifier className)) cs) s =
     openCandidate className s"
| "classDeclarationRule _ s = s"

fun variableDeclaratorRule :: "esnode \<Rightarrow> recovery_state \<Rightarrow> recovery_state" where
  "variableDeclaratorRule
     (EsVariableDeclarator (EsIdentifier className) (Some (EsFunctionExpression cs))) s =
     openCandidate className s"
| "variableDeclaratorRule _ s = s"

fun functionDeclarationRule :: "esnode \<Rightarrow> recovery_state \<Rightarrow> recovery_state" where
  "functionDeclarationRule (EsFunctionDeclaration (Some (EsIdentifier className)) cs) s =
     openCandidate className s"
| "functionDeclarationRule _ s = s"

definition addMethod :: "bool \<Rightarrow> string \<Rightarrow> ClientClass \<Rightarrow> ClientClass" where
  "addMethod isStatic methodName clientClass =
     (if isStatic then
        (let c1 = clientClass\<lparr>staticMethods := set_add methodName (staticMethods clientClass)\<rparr>
         in if methodName = ''Instance''
            then c1\<lparr>hasInstance := True,
                    staticProperties := set_add ''Instance'' (staticProperties c1)\<rparr>
            else c1)
      else clientClass\<lparr>methods := set_add methodName (methods clientClass)\<rparr>)"

fun methodDefinitionRule :: "esnode \<Rightarrow> recovery_state \<Rightarrow> recovery_state" where
  "methodDefinitionRule (EsMethodDefinition isStatic kind (EsIdentifier methodName) v) s =
     (case openClass s of
        None \<Rightarrow> s
      | Some c \<Rightarrow> s\<lparr>classMap := modifyClass c (addMethod isStatic methodName) (classMap s)\<rparr>)"
| "methodDefinitionRule _ s = s"

definition markStatic :: "string \<Rightarrow> ClientClass \<Rightarrow> ClientClass" where
  "markStatic propName clientClass =
     (let c1 = clientClass\<lparr>staticProperties := set_add propName (staticProperties clientClass)\<rparr>;
          c2 = (if propName = ''Instance'' then c1\<lparr>hasInstance := True\<rparr> else c1)
      in if propName = ''Manager'' then c2\<lparr>hasManager := True\<rparr> else c2)"

definition addAccessor :: "bool \<Rightarrow> string \<Rightarrow> ClientClass \<Rightarrow> ClientClass" where
  "addAccessor isStatic propName clientClass =
     (if isStatic then markStatic propName clientClass
      else clientClass\<lparr>properties := set_add propName (properties clientClass)\<rparr>)"

fun accessorRule :: "esnode \<Rightarrow> recovery_state \<Rightarrow> recovery_state" where
  "accessorRule (EsMethodDefinition isStatic kind (EsIdentifier propName) v) s =
     (if kind = KindGet \<or> kind = KindSet then
        (case openClass s of
           None \<Rightarrow> s
         | Some c \<Rightarrow> s\<lparr>classMap := modifyClass c (addAccessor isStatic propName) (classMap s)\<rparr>)
      else s)"
| "accessorRule _ s = s"

text \<open>\<open>ClassName.prototype.method = ...\<close>\<close>

fun prototypeAssignmentRule :: "esnode \<Rightarrow> recovery_state \<Rightarrow> recovery_state" where
  "prototypeAssignmentRule
     (EsAssignmentExpression
        (EsMemberExpression (EsMemberExpression (EsIdentifier className) (EsIdentifier p))
           (EsIdentifier methodName)) r) s =
     (if p = ''prototype'' \<and> isShortName className
      then s\<lparr>classMap :=
               modifyClass className (\<lambda>c. c\<lparr>methods := set_add methodName (methods c)\<rparr>)
                 (ensureClass className (classMap s))\<rparr>
      else s)"
| "prototypeAssignmentRule _ s = s"

text \<open>\<open>ClassName.property = value\<close>\<close>

fun staticAssignmentRule :: "esnode \<Rightarrow> recovery_state \<Rightarrow> recovery_state" where
  "staticAssignmentRule
     (EsAssignmentExpression (EsMemberExpression (EsIdentifier className) (EsIdentifier propertyName))
        r) s =
     (if isShortName className
      then s\<lparr>classMap :=
               modifyClass className (markStatic propertyName) (ensureClass className (classMap s))\<rparr>
      else s)"
| "staticAssignmentRule _ s = s"

text \<open>\<open>this.property = value\<close>\<close>

fun thisAssignmentRule :: "esnode \<Rightarrow> recovery_state \<Rightarrow> recovery_state" where
  "thisAssignmentRule
     (EsAssignmentExpression (EsMemberExpression EsThisExpression (EsIdentifier propertyName)) r) s =
     (case openClass s of
        Some c \<Rightarrow>
          s\<lparr>classMap :=
              modifyClass c (\<lambda>cl. cl\<lparr>properties := set_add propertyName (properties cl)\<rparr>)
                (classMap s)\<rparr>
      | None \<Rightarrow>
          s\<lparr>classMap :=
              map (\<lambda>(k, cl). (k, cl\<lparr>properties := set_add propertyName (properties cl)\<rparr>))
                (classMap s)\<rparr>)"
| "thisAssignmentRule _ s = s"

definition enter :: "esnode \<Rightarrow> recovery_state \<Rightarrow> recovery_state" where
  "enter node s =
     thisAssignmentRule node
       (staticAssignmentRule node
         (prototypeAssignmentRule node
           (accessorRule node
             (methodDefinitionRule node
               (functionDeclarationRule node
                 (variableDeclaratorRule node
                   (classDeclarationRule node s)))))))"

fun leave :: "esnode \<Rightarrow> recovery_state \<Rightarrow> recovery_state" where
  "leave (EsClassDeclaration i cs) s = s\<lparr>currentClass := None\<rparr>"
| "leave (EsFunctionDeclaration i cs) s = s\<lparr>currentClass := None\<rparr>"
| "leave (EsVariableDeclarator i (Some (EsFunctionExpression cs))) s = s\<lparr>currentClass := None\<rparr>"
| "leave _ s = s"

text \<open>\<open>walk(ast, {enter, leave})\<close>: enter the node, walk its children, leave it.\<close>

fun walk :: "esnode \<Rightarrow> recovery_state \<Rightarrow> recovery_state"
  and walkEach :: "esnode list \<Rightarrow> recovery_state \<Rightarrow> recovery_state"
  and walkOptional :: "esnode option \<Rightarrow> recovery_state \<Rightarrow> recovery_state" where
  "walk (EsIdentifier x) s = leave (EsIdentifier x) (enter (EsIdentifier x) s)"
| "walk EsThisExpression s = leave EsThisExpression (enter EsThisExpression s)"
| "walk (EsMemberExpression obj prop) s =
     leave (EsMemberExpression obj prop)
       (walk prop (walk obj (enter (EsMemberExpression obj prop) s)))"
| "walk (EsFunctionExpression cs) s =
     leave (EsFunctionExpression cs) (walkEach cs (enter (EsFunctionExpression cs) s))"
| "walk (EsClassDeclaration i cs) s =
     leave (EsClassDeclaration i cs)
       (walkEach cs (walkOptional i (enter (EsClassDeclaration i cs) s)))"
| "walk (EsVariableDeclarator i init) s =
     leave (EsVariableDeclarator i init)
       (walkOptional init (walk i (enter (EsVariableDeclarator i init) s)))"
| "walk (EsFunctionDeclaration i cs) s =
     leave (EsFunctionDeclaration i cs)
       (walkEach cs (walkOptional i (enter (EsFunctionDeclaration i cs) s)))"
| "walk (EsMethodDefinition isStatic kind k v) s =
     leave (EsMethodDefinition isStatic kind k v)
       (walk v (walk k (enter (EsMethodDefinition isStatic kind k v) s)))"
| "walk (EsAssignmentExpression l r) s =
     leave (EsAssignmentExpression l r)
       (walk r (walk l (enter (EsAssignmentExpression l r) s)))"
| "walk (EsOther cs) s = leave (EsOther cs) (walkEach cs (enter (EsOther cs) s))"
| "walkEach [] s = s"
| "walkEach (n # ns) s = walkEach ns (walk n s)"
| "walkOptional None s = s"
| "walkOptional (Some n) s = walk n s"

definition hasMembers :: "ClientClass \<Rightarrow> bool" where
  "hasMembers clientClass \<longleftrightarrow>
     length (properties clientClass) > 0 \<or> length (methods clientClass) > 0 \<or>
     length (staticProperties clientClass) > 0 \<or> length (staticMethods clientClass) > 0"

definition recoverClasses :: "esnode \<Rightarrow> ClientClass list" where
  "recoverClasses ast =
     filter hasMembers
       (map snd (classMap (walk ast \<lparr>currentClass = None, classMap = []\<rparr>)))"

text \<open>
  \<open>parse\<close> stands for the external parser; it gives \<open>None\<close> when parsing throws, and
  the \<open>catch\<close> then resolves with the empty list.
\<close>

definition parseClientForClasses :: "(string \<Rightarrow> esnode option) \<Rightarrow> string \<Rightarrow> ClientClass list" where
  "parseClientForClasses parse clientCode =
     (case parse clientCode of
        None \<Rightarrow> []
      | Some ast \<Rightarrow> recoverClasses ast)"

subsection \<open>Fetching the client bundle: \<open>obtainGameClient\<close>\<close>

text \<open>
  The network is a parameter: \<open>fetchAssets\<close> is the outcome of fetching the asset
  manifest and reading \<open>data.latestClientVersion\<close> from its JSON, \<open>fetchClient v\<close> the
  outcome of fetching the text of the bundle of version \<open>v\<close>; \<open>Inl\<close> is a rejected
  promise or a thrown error.
\<close>

record network =
  fetchAssets :: "error + int"
  fetchClient :: "int \<Rightarrow> error + string"

text \<open>
  Modelled from the spec: \<open>IndexDBWrapper\<close>, the key-value cache for the last-seen client
  version and the cached bundle text, exposed as \<open>get(key)\<close>/\<open>set(key, value)\<close>; a key
  that was never set reads as \<open>undefined\<close> (\<open>None\<close>).
\<close>

record client_cache =
  clientLastVersion :: "int option"
  highSpellClient :: "string option"

definition clientAccessors :: string where
  "clientAccessors =
     ''; document.client = {};'' @
     ''document.client.get = function(a) {'' @
     ''return eval(a);'' @
     ''};'' @
     ''document.client.set = function(a, b) {'' @
     ''eval(a + '' @ [CHR 0x27] @ '' = '' @ [CHR 0x27] @ '' + b);'' @
     ''};''"

text \<open>
  The result is the bundle text (\<open>None\<close> for \<open>undefined\<close>, read from a cache that holds
  no bundle) and the cache afterwards. \<open>substring\<close> treats a negative index as 0, as
  the truncated subtraction does.
\<close>

definition obtainGameClient ::
  "network \<Rightarrow> bool \<Rightarrow> client_cache \<Rightarrow> error + (string option \<times> client_cache)" where
  "obtainGameClient net ignoreDB db =
     (let lastVersion =
        (if ignoreDB then 0 else (case clientLastVersion db of None \<Rightarrow> 0 | Some v \<Rightarrow> v))
      in case fetchAssets net of
           Inl e \<Rightarrow> Inl e
         | Inr remoteLastVersion \<Rightarrow>
             if lastVersion < remoteLastVersion then
               (case fetchClient net remoteLastVersion of
                  Inl e \<Rightarrow> Inl e
                | Inr text \<Rightarrow>
                    (let client = take (length text - 9) text @ clientAccessors @
                                  drop (length text - 9) text
                     in Inr (Some client,
                             if ignoreDB then db
                             else db\<lparr>highSpellClient := Some client,
                                     clientLastVersion := Some remoteLastVersion\<rparr>)))
             else Inr (if ignoreDB then Some [] else highSpellClient db, db))"

subsection \<open>The analysis run: \<open>analyzeGameHookDependencies\<close>\<close>

definition quoted :: "string \<Rightarrow> string" where
  "quoted s = [CHR 0x22] @ s @ [CHR 0x22]"

definition registerClassLine :: "string \<Rightarrow> string \<Rightarrow> string" where
  "registerClassLine clientClassName' mappedName =
     ''this.hookManager.registerClass('' @ quoted clientClassName' @ '', '' @
       quoted mappedName @ '');''"

definition updateLine :: "string \<Rightarrow> string \<Rightarrow> string \<Rightarrow> string" where
  "updateLine clientClassName' mappedName previous =
     ''// UPDATE: '' @ registerClassLine clientClassName' mappedName @ '' // was '' @
       quoted previous"

text \<open>
  One iteration of the loop over the usage records: an existing mapping whose class was
  recovered is kept (\<open>continue\<close>); otherwise the candidates are ranked and the best one
  is suggested if its score is at least 2. \<open>results\<close> is the global array of lines.
\<close>

definition discoverClass ::
  "ClassMapping list \<Rightarrow> ClientClass list \<Rightarrow> string \<times> HookUsage \<Rightarrow> string list \<Rightarrow> string list" where
  "discoverClass classMappings clientClasses entry results =
     (let mappedName = fst entry; hookUsage' = snd entry;
          existingMapping = find (\<lambda>m. m_hookName m = mappedName) classMappings;
          valid = (case existingMapping of
                     None \<Rightarrow> None
                   | Some em \<Rightarrow>
                       (case find (\<lambda>c. name c = m_clientClassName em) clientClasses of
                          None \<Rightarrow> None
                        | Some clientClass \<Rightarrow> Some em))
      in case valid of
           Some em \<Rightarrow> results @ [registerClassLine (m_clientClassName em) mappedName]
         | None \<Rightarrow>
            (case rankMatches hookUsage' clientClasses mappedName of
               [] \<Rightarrow> results
             | bestMatch # others \<Rightarrow>
                 if matchScore bestMatch \<ge> 2 then
                   (case existingMapping of
                      Some em \<Rightarrow>
                        if m_clientClassName em \<noteq> clientClassName bestMatch
                        then results @ [updateLine (clientClassName bestMatch) mappedName
                                          (m_clientClassName em)]
                        else results
                    | None \<Rightarrow>
                        results @ [registerClassLine (clientClassName bestMatch) mappedName])
                 else results))"

text \<open>
  What a run leaves behind when its promise resolves: the usage records it returns, the
  lines of \<open>results\<close> that the final \<open>then\<close> prints, and the errors its \<open>catch\<close>
  reported with \<open>console.error\<close>.
\<close>

record analysis =
  usage :: "(string \<times> HookUsage) list"
  suggestions :: "string list"
  reported :: "error list"

record environment =
  relative :: "string \<Rightarrow> string"
  files :: "(string \<times> tsnode option) list"
  coreFilePath :: string
  coreFile :: "tsnode option"
  net :: network
  parse :: "string \<Rightarrow> esnode option"
  cache :: client_cache

text \<open>
  \<open>Inl\<close> is a rejected promise (an error thrown outside every \<open>try\<close>), which the
  top-level \<open>.catch(console.error)\<close> receives; \<open>Inr\<close> is normal completion, after
  which the top-level \<open>then\<close> prints the suggestions. The block that fetches and parses
  the client and matches the classes is inside \<open>try { ... } catch (error) { console.error(...) }\<close>.
\<close>

definition analyzeGameHookDependencies :: "environment \<Rightarrow> error + analysis" where
  "analyzeGameHookDependencies env =
     (let classMappings = extractClassMappingsFromCore (coreFilePath env) (coreFile env) in
      case collectUsage (relative env) (files env) of
        Inl e \<Rightarrow> Inl e
      | Inr usage' \<Rightarrow>
          (case obtainGameClient (net env) True (cache env) of
             Inl e \<Rightarrow> Inr \<lparr>usage = usage', suggestions = [], reported = [e]\<rparr>
           | Inr (None, db) \<Rightarrow> Inr \<lparr>usage = usage', suggestions = [], reported = [TypeError]\<rparr>
           | Inr (Some clientCode, db) \<Rightarrow>
               (let clientClasses = parseClientForClasses (parse env) clientCode in
                Inr \<lparr>usage = usage',
                     suggestions = fold (discoverClass classMappings clientClasses)
                                     (objectEntries usage') [],
                     reported = []\<rparr>)))"

subsection \<open>Vocabulary of the statements\<close>

text \<open>The number of entries of an optional array of the curated table that satisfy \<open>P\<close>.\<close>

definition countPresent :: "(string \<Rightarrow> bool) \<Rightarrow> string list option \<Rightarrow> int" where
  "countPresent P field = (case field of None \<Rightarrow> 0 | Some xs \<Rightarrow> int (length (filter P xs)))"

text \<open>
  The score as the specification words it (section 4.4): as in the source, except that a
  curated property counts only if it was not already counted among the usage-derived
  properties.
\<close>

definition specMatchScore :: "HookUsage \<Rightarrow> ClientClass \<Rightarrow> string \<Rightarrow> int" where
  "specMatchScore u clientClass h =
     2 * int (length (filter (hasProperty clientClass) (u_properties u))) +
     int (length (filter (hasMethod clientClass) (u_methods u))) +
     (case find (\<lambda>info. k_className info = h) knownClassInfo of
        None \<Rightarrow> 0
      | Some k \<Rightarrow>
          3 * countPresent (\<lambda>p. hasProperty clientClass p \<and> p \<notin> set (u_properties u))
                (k_properties k) +
          3 * countPresent (\<lambda>p. p \<in> set (staticProperties clientClass)) (k_staticProperties k) +
          2 * countPresent (hasMethod clientClass) (k_methods k) +
          2 * countPresent (\<lambda>m. m \<in> set (staticMethods clientClass)) (k_staticMethods k)) +
     bonusPoints (u_properties u) clientClass"

subsection \<open>Scope nodes and example sources\<close>

text \<open>The node is a function or block node, or has one below it.\<close>

fun hasScopeNode :: "tsnode \<Rightarrow> bool" where
  "hasScopeNode (TsIdentifier t) = False"
| "hasScopeNode (TsStringLiteral t) = False"
| "hasScopeNode (TsPropertyAccessExpression l e n) = hasScopeNode e"
| "hasScopeNode (TsCallExpression l e tas as) =
     (hasScopeNode e \<or> list_ex hasScopeNode tas \<or> list_ex hasScopeNode as)"
| "hasScopeNode (TsVariableDeclaration l nm ty init) =
     (hasScopeNode nm \<or> (case ty of None \<Rightarrow> False | Some t \<Rightarrow> hasScopeNode t) \<or>
      (case init of None \<Rightarrow> False | Some i \<Rightarrow> hasScopeNode i))"
| "hasScopeNode (TsFunctionDeclaration cs) = True"
| "hasScopeNode (TsFunctionExpression cs) = True"
| "hasScopeNode (TsArrowFunction cs) = True"
| "hasScopeNode (TsBlock cs) = True"
| "hasScopeNode (TsOther cs) = list_ex hasScopeNode cs"

text \<open>
  The trees of the example sources. \<open>gameHooks.Foo.bar\<close>:
\<close>

definition fooBar :: tsnode where
  "fooBar = TsPropertyAccessExpression 0
              (TsPropertyAccessExpression 0 (TsIdentifier ''gameHooks'') ''Foo'') ''bar''"

text \<open>
  The statement \<open>const x = gameHooks.Foo.bar;\<close>: a variable statement holding a
  declaration list holding the declaration. The statement \<open>x.baz;\<close>: an expression
  statement holding the property access. A source file: its statements and the
  end-of-file token.
\<close>

definition constX :: tsnode where
  "constX = TsOther [TsOther [TsVariableDeclaration 0 (TsIdentifier ''x'') None (Some fooBar)]]"

definition xBaz :: tsnode where
  "xBaz = TsOther [TsPropertyAccessExpression 0 (TsIdentifier ''x'') ''baz'']"

definition sourceFile :: "tsnode list \<Rightarrow> tsnode" where
  "sourceFile statements = TsOther (statements @ [TsOther []])"

text \<open>\<open>function f() { body }\<close>: the name and the body block.\<close>

definition functionF :: "tsnode list \<Rightarrow> tsnode" where
  "functionF body = TsFunctionDeclaration [TsIdentifier ''f'', TsBlock body]"

subsection \<open>Recorded members and example clients\<close>

text \<open>
  Every member recorded in \<open>c\<close> is recorded in \<open>c'\<close>; every class of the map of \<open>s\<close> is
  a class of the map of \<open>s'\<close> with at least the same members.
\<close>

definition membersKept :: "ClientClass \<Rightarrow> ClientClass \<Rightarrow> bool" where
  "membersKept c c' \<longleftrightarrow>
     set (properties c) \<subseteq> set (properties c') \<and> set (methods c) \<subseteq> set (methods c') \<and>
     set (staticProperties c) \<subseteq> set (staticProperties c') \<and>
     set (staticMethods c) \<subseteq> set (staticMethods c')"

definition classesKept :: "(string \<times> ClientClass) list \<Rightarrow> (string \<times> ClientClass) list \<Rightarrow> bool" where
  "classesKept cm cm' \<longleftrightarrow>
     (\<forall>k c. map_of cm k = Some c \<longrightarrow> (\<exists>c'. map_of cm' k = Some c' \<and> membersKept c c'))"

text \<open>
  The trees of \<open>class A {} class B { m(){} }\<close> and of \<open>class A { get foo(){} }\<close>: a
  program holding class declarations; a class declaration holds its name and its class
  body, which holds the method definitions; the value of a method is a function
  expression holding its body.
\<close>

definition classAB :: esnode where
  "classAB =
     EsOther
       [EsClassDeclaration (Some (EsIdentifier ''A'')) [EsOther []],
        EsClassDeclaration (Some (EsIdentifier ''B''))
          [EsOther [EsMethodDefinition False KindMethod (EsIdentifier ''m'')
                      (EsFunctionExpression [EsOther []])]]]"

definition classWithGetter :: esnode where
  "classWithGetter =
     EsOther
       [EsClassDeclaration (Some (EsIdentifier ''A''))
          [EsOther [EsMethodDefinition False KindGet (EsIdentifier ''foo'')
                      (EsFunctionExpression [EsOther []])]]]"

subsection \<open>Aggregates of the usage records\<close>

text \<open>
  What a usage record says, apart from the order in which the elements of its sets were
  inserted: the four sets and the two flags. \<open>aggregates\<close> gives this for every hook
  name of a usage object, \<open>finalAggregates\<close> for the outcome of the aggregation.
\<close>

record aggregate =
  a_properties :: "string set"
  a_methods :: "string set"
  a_fullExpressions :: "string set"
  a_files :: "string set"
  a_fromDirectAccess :: bool
  a_fromHookRegistration :: bool

definition aggregateOf :: "HookUsage \<Rightarrow> aggregate" where
  "aggregateOf u =
     \<lparr>a_properties = set (u_properties u), a_methods = set (u_methods u),
      a_fullExpressions = set (u_fullExpressions u), a_files = set (u_files u),
      a_fromDirectAccess = fromDirectAccess u,
      a_fromHookRegistration = fromHookRegistration u\<rparr>"

definition aggregates :: "(string \<times> HookUsage) list \<Rightarrow> string \<Rightarrow> aggregate option" where
  "aggregates us = map_option aggregateOf \<circ> map_of us"


text \<open>
  The three loops of the aggregation, seen on the aggregates. \<open>liftE\<close> lets a step pass
  an earlier error on.
\<close>

definition liftE :: "('a \<Rightarrow> 's \<Rightarrow> error + 's) \<Rightarrow> 'a \<Rightarrow> error + 's \<Rightarrow> error + 's" where
  "liftE f x r = (case r of Inl e \<Rightarrow> Inl e | Inr s \<Rightarrow> f x s)"







subsection \<open>Example runs\<close>

text \<open>
  The statement \<open>hooks.registerClassHook("Foo", "update");\<close>, and an environment for a
  run over the given files whose network is down.
\<close>

definition registerFooUpdate :: tsnode where
  "registerFooUpdate =
     TsOther [TsCallExpression 0
                (TsPropertyAccessExpression 0 (TsIdentifier ''hooks'') ''registerClassHook'') []
                [TsStringLiteral ''Foo'', TsStringLiteral ''update'']]"

definition offline :: "(string \<times> tsnode option) list \<Rightarrow> environment" where
  "offline fs =
     \<lparr>relative = (\<lambda>p. p), files = fs, coreFilePath = ''core.ts'', coreFile = None,
      net = \<lparr>fetchAssets = Inl (FetchError ''fetch failed''),
              fetchClient = (\<lambda>v. Inl (FetchError ''fetch failed''))\<rparr>,
      parse = (\<lambda>code. None),
      cache = \<lparr>clientLastVersion = None, highSpellClient = None\<rparr>\<rparr>"

text \<open>The statement \<open>hooks.registerClassHook("<className>", "<methodName>");\<close>.\<close>

definition registerHookStatement :: "string \<Rightarrow> string \<Rightarrow> tsnode" where
  "registerHookStatement className methodName =
     TsOther [TsCallExpression 0
                (TsPropertyAccessExpression 0 (TsIdentifier ''hooks'') ''registerClassHook'') []
                [TsStringLiteral className, TsStringLiteral methodName]]"

text \<open>The statement \<open>gameHooks.Foo.qux;\<close>.\<close>

definition fooQux :: tsnode where
  "fooQux =
     TsOther [TsPropertyAccessExpression 0
                (TsPropertyAccessExpression 0 (TsIdentifier ''gameHooks'') ''Foo'') ''qux'']"

section \<open>Properties of the match scorer\<close>

lemma score_requiredProperties:
  "matchScore (fold (requiredPropertyStep c) xs m) =
     matchScore m + 2 * int (length (filter (hasProperty c) xs))"
  by (induction xs arbitrary: m) (simp_all add: requiredPropertyStep_def)

lemma score_requiredMethods:
  "matchScore (fold (requiredMethodStep c) xs m) =
     matchScore m + int (length (filter (hasMethod c) xs))"
  by (induction xs arbitrary: m) (simp_all add: requiredMethodStep_def)

lemma score_knownProperties:
  "matchScore (fold (knownPropertyStep rs c) xs m) =
     matchScore m + 3 * int (length (filter (hasProperty c) xs))"
  by (induction xs arbitrary: m) (simp_all add: knownPropertyStep_def)

lemma score_knownStaticProperties:
  "matchScore (fold (knownStaticPropertyStep rs c) xs m) =
     matchScore m + 3 * int (length (filter (\<lambda>p. p \<in> set (staticProperties c)) xs))"
  by (induction xs arbitrary: m) (simp_all add: knownStaticPropertyStep_def)

lemma score_knownMethods:
  "matchScore (fold (knownMethodStep rs c) xs m) =
     matchScore m + 2 * int (length (filter (hasMethod c) xs))"
  by (induction xs arbitrary: m) (simp_all add: knownMethodStep_def)

lemma score_knownStaticMethods:
  "matchScore (fold (knownStaticMethodStep rs c) xs m) =
     matchScore m + 2 * int (length (filter (\<lambda>p. p \<in> set (staticMethods c)) xs))"
  by (induction xs arbitrary: m) (simp_all add: knownStaticMethodStep_def)

lemma score_checkKnownInfo:
  "matchScore (checkKnownInfo rp rm c k m) =
     matchScore m +
       3 * countPresent (hasProperty c) (k_properties k) +
       3 * countPresent (\<lambda>p. p \<in> set (staticProperties c)) (k_staticProperties k) +
       2 * countPresent (hasMethod c) (k_methods k) +
       2 * countPresent (\<lambda>p. p \<in> set (staticMethods c)) (k_staticMethods k)"
  by (simp add: checkKnownInfo_def forOptional_def countPresent_def score_knownProperties
        score_knownStaticProperties score_knownMethods score_knownStaticMethods
      split: option.splits)

lemma score_parts:
  "matchScore (calculateMatchScore u c h) =
     2 * int (length (filter (hasProperty c) (u_properties u))) +
     int (length (filter (hasMethod c) (u_methods u))) +
     (case find (\<lambda>info. k_className info = h) knownClassInfo of
        None \<Rightarrow> 0
      | Some k \<Rightarrow>
          3 * countPresent (hasProperty c) (k_properties k) +
          3 * countPresent (\<lambda>p. p \<in> set (staticProperties c)) (k_staticProperties k) +
          2 * countPresent (hasMethod c) (k_methods k) +
          2 * countPresent (\<lambda>p. p \<in> set (staticMethods c)) (k_staticMethods k)) +
     bonusPoints (u_properties u) c"
  by (simp add: calculateMatchScore_def Let_def score_checkKnownInfo
        score_requiredProperties score_requiredMethods split: option.splits)

text \<open>The score for the hook name \<open>ChatManager\<close>, with the curated table unfolded.\<close>

lemma score_ChatManager:
  "matchScore (calculateMatchScore u c ''ChatManager'') =
     2 * int (length (filter (hasProperty c) (u_properties u))) +
     int (length (filter (hasMethod c) (u_methods u))) +
     (if hasProperty c ''Instance'' then 3 else 0) +
     (if hasProperty c ''_friends'' then 3 else 0) +
     (if ''Instance'' \<in> set (staticProperties c) then 3 else 0) +
     bonusPoints (u_properties u) c"
  by (simp add: score_parts knownClassInfo_def countPresent_def)

lemma score_other_hook:
  "h \<noteq> ''ChatManager'' \<Longrightarrow>
   matchScore (calculateMatchScore u c h) =
     2 * int (length (filter (hasProperty c) (u_properties u))) +
     int (length (filter (hasMethod c) (u_methods u))) +
     bonusPoints (u_properties u) c"
  by (simp add: score_parts knownClassInfo_def)

lemma clientClassName_folds:
  "clientClassName (fold (requiredPropertyStep c) xs m) = clientClassName m"
  "clientClassName (fold (requiredMethodStep c) xs m) = clientClassName m"
  "clientClassName (fold (knownPropertyStep rs c) xs m) = clientClassName m"
  "clientClassName (fold (knownStaticPropertyStep rs c) xs m) = clientClassName m"
  "clientClassName (fold (knownMethodStep rs c) xs m) = clientClassName m"
  "clientClassName (fold (knownStaticMethodStep rs c) xs m) = clientClassName m"
  by (induction xs arbitrary: m;
      simp add: requiredPropertyStep_def requiredMethodStep_def knownPropertyStep_def
        knownStaticPropertyStep_def knownMethodStep_def knownStaticMethodStep_def)+

lemma clientClassName_calculateMatchScore:
  "clientClassName (calculateMatchScore u c h) = name c"
  by (simp add: calculateMatchScore_def Let_def checkKnownInfo_def forOptional_def
        clientClassName_folds split: option.splits)

lemma sorted_rankMatches:
  "sorted (map (\<lambda>m. - matchScore m) (rankMatches u cs h))"
  by (simp add: rankMatches_def)

lemma rankMatches_descending:
  assumes "i \<le> j" "j < length (rankMatches u cs h)"
  shows "matchScore (rankMatches u cs h ! j) \<le> matchScore (rankMatches u cs h ! i)"
proof -
  let ?ms = "rankMatches u cs h"
  have "map (\<lambda>m. - matchScore m) ?ms ! i \<le> map (\<lambda>m. - matchScore m) ?ms ! j"
    using sorted_rankMatches [of u cs h] assms by (simp add: sorted_iff_nth_mono)
  with assms show ?thesis by simp
qed

text \<open>
  C1, as the code has it. With the usage of \<open>ChatManager\<close> requiring exactly the property
  \<open>Instance\<close> and the method \<open>sendMessage\<close>, a candidate with the static property
  \<open>Instance\<close>, \<open>hasInstance\<close>, the instance method \<open>sendMessage\<close> and no \<open>_friends\<close>
  property scores 14: 2 for the required property, 1 for the required method, 3 for the
  curated property \<open>Instance\<close>, 3 for the curated static property \<open>Instance\<close>, and the
  bonus of 5. In the ranked matches of any candidate list it stands before the match of
  every candidate that has no \<open>Instance\<close> property.
\<close>

theorem chatManager_scenario:
  assumes "u_properties u = [''Instance'']" and "u_methods u = [''sendMessage'']"
    and "''Instance'' \<in> set (staticProperties c)" and "hasInstance c"
    and "''sendMessage'' \<in> set (methods c)" and "\<not> hasProperty c ''_friends''"
  shows "matchScore (calculateMatchScore u c ''ChatManager'') = 14 \<and>
         (\<forall>d i j. \<not> hasProperty d ''Instance'' \<and>
            i < length (rankMatches u cs ''ChatManager'') \<and>
            j < length (rankMatches u cs ''ChatManager'') \<and>
            rankMatches u cs ''ChatManager'' ! i = calculateMatchScore u c ''ChatManager'' \<and>
            rankMatches u cs ''ChatManager'' ! j = calculateMatchScore u d ''ChatManager''
            \<longrightarrow> i < j)"
proof -
  let ?ms = "rankMatches u cs ''ChatManager''"
  have score: "matchScore (calculateMatchScore u c ''ChatManager'') = 14"
    using assms by (simp add: score_ChatManager hasProperty_def hasMethod_def bonusPoints_def)
  have low: "matchScore (calculateMatchScore u d ''ChatManager'') \<le> 9"
    if "\<not> hasProperty d ''Instance''" for d
    using that assms(1,2)
    by (simp add: score_ChatManager bonusPoints_def hasProperty_def)
  have "i < j"
    if d: "\<not> hasProperty d ''Instance''" and i: "i < length ?ms" and j: "j < length ?ms"
      and ci: "?ms ! i = calculateMatchScore u c ''ChatManager''"
      and dj: "?ms ! j = calculateMatchScore u d ''ChatManager''" for d i j
  proof (rule ccontr)
    assume "\<not> i < j"
    then have "j \<le> i" by simp
    from rankMatches_descending [OF this i]
    have "matchScore (?ms ! i) \<le> matchScore (?ms ! j)" .
    with ci dj score low [OF d] show False by simp
  qed
  with score show ?thesis by blast
qed

theorem chatManager_scenario_witness:
  "(let u = \<lparr>u_properties = [''Instance''], u_methods = [''sendMessage''],
              u_fullExpressions = [], u_files = [], fromDirectAccess = True,
              fromHookRegistration = False\<rparr>;
        c = \<lparr>name = ''CM'', properties = [], methods = [''sendMessage''],
              staticProperties = [''Instance''], staticMethods = [], hasInstance = True,
              hasManager = False\<rparr>;
        d = \<lparr>name = ''D'', properties = [''_friends''], methods = [''sendMessage''],
              staticProperties = [], staticMethods = [], hasInstance = False,
              hasManager = False\<rparr>
    in matchScore (calculateMatchScore u c ''ChatManager'') = 14 \<and>
       \<not> hasProperty d ''Instance'' \<and>
       map clientClassName (rankMatches u [d, c] ''ChatManager'') = [''CM'', ''D''])"
proof -
  let ?u = "\<lparr>u_properties = [''Instance''], u_methods = [''sendMessage''],
              u_fullExpressions = [], u_files = [], fromDirectAccess = True,
              fromHookRegistration = False\<rparr>"
  let ?c = "\<lparr>name = ''CM'', properties = [], methods = [''sendMessage''],
              staticProperties = [''Instance''], staticMethods = [], hasInstance = True,
              hasManager = False\<rparr>"
  let ?d = "\<lparr>name = ''D'', properties = [''_friends''], methods = [''sendMessage''],
              staticProperties = [], staticMethods = [], hasInstance = False,
              hasManager = False\<rparr>"
  have c: "matchScore (calculateMatchScore ?u ?c ''ChatManager'') = 14"
    using chatManager_scenario [of ?u ?c "[]"] by (simp add: hasProperty_def)
  have d: "matchScore (calculateMatchScore ?u ?d ''ChatManager'') = 4"
    by (simp add: score_ChatManager hasProperty_def hasMethod_def bonusPoints_def)
  have "map clientClassName (rankMatches ?u [?d, ?c] ''ChatManager'') = [''CM'', ''D'']"
    unfolding rankMatches_def using c d by (simp add: clientClassName_calculateMatchScore)
  with c show ?thesis by (simp add: Let_def hasProperty_def)
qed

theorem chatManager_scenario_counterexample:
  "matchScore (calculateMatchScore
      \<lparr>u_properties = [''Instance''], u_methods = [''sendMessage''], u_fullExpressions = [],
        u_files = [], fromDirectAccess = True, fromHookRegistration = False\<rparr>
      \<lparr>name = ''CM'', properties = [], methods = [''sendMessage''],
        staticProperties = [''Instance''], staticMethods = [], hasInstance = True,
        hasManager = False\<rparr> ''ChatManager'') \<noteq> 11"
  by (simp add: score_ChatManager hasProperty_def hasMethod_def bonusPoints_def)

text \<open>
  C2, as the code has it. The score is a sum of independent parts, and the part of the
  curated properties is 3 for every property that the table lists for the hook name and
  that the candidate has as an instance or static property: it does not depend on the
  usage, so a curated property adds its 3 points also when it was already counted among
  the usage-derived properties.
\<close>

theorem curated_points_independent_of_usage:
  "matchScore (calculateMatchScore u c h) =
     2 * int (length (filter (hasProperty c) (u_properties u))) +
     int (length (filter (hasMethod c) (u_methods u))) +
     (case find (\<lambda>info. k_className info = h) knownClassInfo of
        None \<Rightarrow> 0
      | Some k \<Rightarrow>
          3 * countPresent (hasProperty c) (k_properties k) +
          3 * countPresent (\<lambda>p. p \<in> set (staticProperties c)) (k_staticProperties k) +
          2 * countPresent (hasMethod c) (k_methods k) +
          2 * countPresent (\<lambda>m. m \<in> set (staticMethods c)) (k_staticMethods k)) +
     bonusPoints (u_properties u) c"
  by (rule score_parts)

text \<open>
  The usage requires \<open>_friends\<close> and the candidate has it: the code gives 2 + 3 = 5, the
  specification's wording gives 2.
\<close>

theorem curated_points_counterexample:
  "matchScore (calculateMatchScore
      \<lparr>u_properties = [''_friends''], u_methods = [], u_fullExpressions = [],
        u_files = [], fromDirectAccess = True, fromHookRegistration = False\<rparr>
      \<lparr>name = ''Fr'', properties = [''_friends''], methods = [], staticProperties = [],
        staticMethods = [], hasInstance = False, hasManager = False\<rparr> ''ChatManager'') = 5 \<and>
   specMatchScore
      \<lparr>u_properties = [''_friends''], u_methods = [], u_fullExpressions = [],
        u_files = [], fromDirectAccess = True, fromHookRegistration = False\<rparr>
      \<lparr>name = ''Fr'', properties = [''_friends''], methods = [], staticProperties = [],
        staticMethods = [], hasInstance = False, hasManager = False\<rparr> ''ChatManager'' = 2"
  by (simp add: score_ChatManager specMatchScore_def knownClassInfo_def countPresent_def
        hasProperty_def hasMethod_def bonusPoints_def)

lemma count_present_after_add:
  assumes "\<not> P p"
  shows "length (filter (\<lambda>x. P x \<or> x = p) xs) = length (filter P xs) + count_list xs p"
  using assms by (induction xs) auto

lemma hasProperty_add:
  "hasProperty (c\<lparr>properties := set_add p (properties c)\<rparr>) x \<longleftrightarrow> hasProperty c x \<or> x = p"
  by (auto simp: hasProperty_def set_add_def)

lemma hasMethod_add_property:
  "hasMethod (c\<lparr>properties := ps\<rparr>) = hasMethod c"
  by (rule ext) (simp add: hasMethod_def)

lemma count_list_distinct: "distinct xs \<Longrightarrow> x \<in> set xs \<Longrightarrow> count_list xs x = 1"
  by (induction xs) auto

text \<open>
  C3, as the code has it. Adding a missing required property \<open>p\<close> to the candidate's
  property set raises the score by exactly 2, and by 3 more when \<open>p\<close> is also a curated
  property of the hook name (\<open>Instance\<close> or \<open>_friends\<close> for \<open>ChatManager\<close>).
\<close>

theorem adding_required_property:
  assumes "distinct (u_properties u)" and "p \<in> set (u_properties u)"
    and "\<not> hasProperty c p"
  shows "matchScore (calculateMatchScore u (c\<lparr>properties := set_add p (properties c)\<rparr>) h) =
         matchScore (calculateMatchScore u c h) + 2 +
           (if h = ''ChatManager'' \<and> (p = ''Instance'' \<or> p = ''_friends'') then 3 else 0)"
proof -
  let ?c = "c\<lparr>properties := set_add p (properties c)\<rparr>"
  have req: "int (length (filter (hasProperty ?c) (u_properties u))) =
             int (length (filter (hasProperty c) (u_properties u))) + 1"
    using assms
    by (simp add: hasProperty_add [abs_def] count_present_after_add count_list_distinct)
  have bonus: "bonusPoints (u_properties u) ?c = bonusPoints (u_properties u) c"
    by (simp add: bonusPoints_def)
  show ?thesis
  proof (cases "h = ''ChatManager''")
    case True
    with assms(3) req bonus show ?thesis
      by (auto simp: score_ChatManager hasProperty_add hasMethod_add_property)
  next
    case False
    with req bonus show ?thesis
      by (simp add: score_other_hook hasMethod_add_property)
  qed
qed

theorem adding_required_property_witness:
  "(let u = \<lparr>u_properties = [''health''], u_methods = [], u_fullExpressions = [],
              u_files = [], fromDirectAccess = True, fromHookRegistration = False\<rparr>;
        c = \<lparr>name = ''Pl'', properties = [], methods = [], staticProperties = [],
              staticMethods = [], hasInstance = False, hasManager = False\<rparr>
    in distinct (u_properties u) \<and> ''health'' \<in> set (u_properties u) \<and>
       \<not> hasProperty c ''health'' \<and>
       matchScore (calculateMatchScore u c ''Player'') = 0 \<and>
       matchScore (calculateMatchScore u (c\<lparr>properties := set_add ''health'' (properties c)\<rparr>)
          ''Player'') = 2)"
proof -
  let ?u = "\<lparr>u_properties = [''health''], u_methods = [], u_fullExpressions = [],
              u_files = [], fromDirectAccess = True, fromHookRegistration = False\<rparr>"
  let ?c = "\<lparr>name = ''Pl'', properties = [], methods = [], staticProperties = [],
              staticMethods = [], hasInstance = False, hasManager = False\<rparr>"
  have zero: "matchScore (calculateMatchScore ?u ?c ''Player'') = 0"
    by (simp add: score_other_hook hasProperty_def bonusPoints_def)
  have "matchScore (calculateMatchScore ?u (?c\<lparr>properties := set_add ''health'' (properties ?c)\<rparr>)
          ''Player'') = matchScore (calculateMatchScore ?u ?c ''Player'') + 2 + 0"
    using adding_required_property [of ?u "''health''" ?c "''Player''"]
    by (simp add: hasProperty_def)
  with zero show ?thesis by (simp add: Let_def hasProperty_def)
qed

theorem adding_required_property_counterexample:
  "matchScore (calculateMatchScore
      \<lparr>u_properties = [''_friends''], u_methods = [], u_fullExpressions = [],
        u_files = [], fromDirectAccess = True, fromHookRegistration = False\<rparr>
      \<lparr>name = ''Fr'', properties = [''_friends''], methods = [], staticProperties = [],
        staticMethods = [], hasInstance = False, hasManager = False\<rparr> ''ChatManager'') -
   matchScore (calculateMatchScore
      \<lparr>u_properties = [''_friends''], u_methods = [], u_fullExpressions = [],
        u_files = [], fromDirectAccess = True, fromHookRegistration = False\<rparr>
      \<lparr>name = ''Fr'', properties = [], methods = [], staticProperties = [],
        staticMethods = [], hasInstance = False, hasManager = False\<rparr> ''ChatManager'') \<noteq> 2"
  by (simp add: score_ChatManager hasProperty_def hasMethod_def bonusPoints_def)

section \<open>Properties of the hook usage extractor\<close>

lemmas walk_simps =
  analyzeFileForGameHooks_def initialWalk_def beforeChildren_def afterChildren_def
  accessStep_def accessLine_def indirectDependency_def isGameHooksAccess_def
  getHookNameAndProperties_def enterScope_def exitScope_def markCall_def Let_def
  fooBar_def constX_def xBaz_def sourceFile_def functionF_def

text \<open>
  C4. For \<open>const x = gameHooks.Foo.bar; x.baz;\<close> in any file the extractor reports
  exactly one direct reference with hook name \<open>Foo\<close> and property chain \<open>[bar]\<close>, and
  exactly one indirect reference, which has hook name \<open>Foo\<close>, property chain
  \<open>[bar, baz]\<close> and source variable \<open>x\<close>. The whole output is given first: between the
  two it holds a direct reference with an empty chain for the inner expression
  \<open>gameHooks.Foo\<close> of the initializer.
\<close>

theorem alias_example_references:
  "analyzeFileForGameHooks filePath (Some (sourceFile [constX, xBaz])) =
     [\<lparr>d_hookName = ''Foo'', propertyChain = [''bar''],
       fullExpression = ''gameHooks.Foo.bar'', d_file = filePath, line = 1,
       isDirect = True, sourceVariable = None\<rparr>,
      \<lparr>d_hookName = ''Foo'', propertyChain = [],
       fullExpression = ''gameHooks.Foo'', d_file = filePath, line = 1,
       isDirect = True, sourceVariable = None\<rparr>,
      \<lparr>d_hookName = ''Foo'', propertyChain = [''bar'', ''baz''],
       fullExpression = ''x.baz'', d_file = filePath, line = 1,
       isDirect = False, sourceVariable = Some ''x''\<rparr>] \<and>
   filter (\<lambda>d. isDirect d \<and> d_hookName d = ''Foo'' \<and> propertyChain d = [''bar''])
     (analyzeFileForGameHooks filePath (Some (sourceFile [constX, xBaz]))) =
     [\<lparr>d_hookName = ''Foo'', propertyChain = [''bar''],
       fullExpression = ''gameHooks.Foo.bar'', d_file = filePath, line = 1,
       isDirect = True, sourceVariable = None\<rparr>] \<and>
   filter (\<lambda>d. \<not> isDirect d)
     (analyzeFileForGameHooks filePath (Some (sourceFile [constX, xBaz]))) =
     [\<lparr>d_hookName = ''Foo'', propertyChain = [''bar'', ''baz''],
       fullExpression = ''x.baz'', d_file = filePath, line = 1,
       isDirect = False, sourceVariable = Some ''x''\<rparr>]"
  by (simp add: walk_simps)

text \<open>
  The example of C5, \<open>function f(){ const x = gameHooks.Foo.bar; } x.baz;\<close>: the two
  direct references of the declaration and no indirect reference.
\<close>

lemma scoped_alias_example:
  "analyzeFileForGameHooks filePath (Some (sourceFile [functionF [constX], xBaz])) =
     [\<lparr>d_hookName = ''Foo'', propertyChain = [''bar''],
       fullExpression = ''gameHooks.Foo.bar'', d_file = filePath, line = 1,
       isDirect = True, sourceVariable = None\<rparr>,
      \<lparr>d_hookName = ''Foo'', propertyChain = [],
       fullExpression = ''gameHooks.Foo'', d_file = filePath, line = 1,
       isDirect = True, sourceVariable = None\<rparr>]"
  by (simp add: walk_simps)

text \<open>
  C5 on \<open>function f(){ const x = gameHooks.Foo.bar; {} } x.baz;\<close>. The alias is
  recorded with the scope of the body of \<open>f\<close>. Leaving the inner block sets the current
  scope to \<open>global\<close>, so leaving the body and leaving \<open>f\<close> delete the aliases of scope
  \<open>global\<close> only: the alias outlives the function, and the top-level \<open>x.baz\<close> is
  reported as an indirect reference.
\<close>

theorem alias_escapes_function_scope:
  "analyzeFileForGameHooks filePath
     (Some (sourceFile [functionF [constX, TsBlock []], xBaz])) =
     [\<lparr>d_hookName = ''Foo'', propertyChain = [''bar''],
       fullExpression = ''gameHooks.Foo.bar'', d_file = filePath, line = 1,
       isDirect = True, sourceVariable = None\<rparr>,
      \<lparr>d_hookName = ''Foo'', propertyChain = [],
       fullExpression = ''gameHooks.Foo'', d_file = filePath, line = 1,
       isDirect = True, sourceVariable = None\<rparr>,
      \<lparr>d_hookName = ''Foo'', propertyChain = [''bar'', ''baz''],
       fullExpression = ''x.baz'', d_file = filePath, line = 1,
       isDirect = False, sourceVariable = Some ''x''\<rparr>]"
  by (simp add: walk_simps)

subsection \<open>The current scope after a walk\<close>

lemma currentScope_exitScope: "currentScope (exitScope s) = Global"
  by (simp add: exitScope_def)

lemma currentScope_declarationStep:
  "currentScope (declarationStep fp n s) = currentScope s"
  by (induction fp n s rule: declarationStep.induct) (simp_all add: Let_def split: prod.splits)

lemma currentScope_aliasStep: "currentScope (aliasStep fp n s) = currentScope s"
  by (induction fp n s rule: aliasStep.induct)
     (simp_all add: indirectDependency_def split: option.splits)

lemma currentScope_accessStep: "currentScope (accessStep fp b n s) = currentScope s"
  by (simp add: accessStep_def Let_def currentScope_aliasStep split: option.splits prod.splits)

lemma currentScope_beforeChildren:
  "\<not> isScopeNode n \<Longrightarrow> currentScope (beforeChildren fp b n s) = currentScope s"
  by (simp add: beforeChildren_def currentScope_accessStep currentScope_declarationStep)

lemma currentScope_beforeChildren_scope:
  "isScopeNode n \<Longrightarrow> currentScope (beforeChildren fp b n s) = Scope (scopeCounter s + 1)"
  by (simp add: beforeChildren_def currentScope_accessStep currentScope_declarationStep
        enterScope_def)

text \<open>
  After a subtree the current scope is \<open>global\<close> if the subtree contains a function or
  block node, and unchanged otherwise.
\<close>

lemma currentScope_visit:
  "currentScope (visit fp b n s) = (if hasScopeNode n then Global else currentScope s)"
  "currentScope (visitEach fp ns s) =
     (if list_ex hasScopeNode ns then Global else currentScope s)"
  "currentScope (visitOptional fp b opt s) =
     (if (case opt of None \<Rightarrow> False | Some n \<Rightarrow> hasScopeNode n) then Global
      else currentScope s)"
proof (induction fp b n s and fp ns s and fp b opt s rule: visit_visitEach_visitOptional.induct)
  case (3 fp b l e n s)
  then show ?case
    by (simp add: afterChildren_def currentScope_beforeChildren)
next
  case (4 fp b l e tas as s)
  then show ?case
    by (simp add: afterChildren_def currentScope_beforeChildren)
next
  case (5 fp b l nm ty init s)
  then show ?case
    by (simp add: afterChildren_def currentScope_beforeChildren split: option.splits)
qed (simp_all add: afterChildren_def currentScope_beforeChildren currentScope_exitScope)

lemma exitScope_deletes_current:
  "(key, ref) \<in> set (variableReferences (exitScope s)) \<Longrightarrow> v_scope ref \<noteq> currentScope s"
  by (auto simp: exitScope_def)

lemma scope_node_visit:
  assumes "n \<in> {TsFunctionDeclaration cs, TsFunctionExpression cs, TsArrowFunction cs, TsBlock cs}"
  shows "visit fp b n s = exitScope (visitEach fp cs (beforeChildren fp b n s))"
  using assms by (auto simp: afterChildren_def)

text \<open>
  C9, as the code has it. \<open>exitScope\<close> always resets the current scope to \<open>global\<close>.
  Hence leaving a function or block node that contains a nested function or block node
  (as a function with a block body does) deletes every alias recorded with scope
  \<open>global\<close>, while leaving a function or block node with no function or block inside
  deletes exactly the aliases recorded with the node's own scope; and
  \<open>const x = gameHooks.Foo.bar; function f(){} x.baz;\<close> yields the two direct references
  of the declaration and no indirect reference.
\<close>

theorem exitScope_resets_to_global:
  assumes "n \<in> {TsFunctionDeclaration cs, TsFunctionExpression cs, TsArrowFunction cs, TsBlock cs}"
  shows "currentScope (exitScope s) = Global \<and>
         (list_ex hasScopeNode cs \<longrightarrow>
            (\<forall>ref \<in> snd ` set (variableReferences (visit fp b n s)). v_scope ref \<noteq> Global)) \<and>
         (\<not> list_ex hasScopeNode cs \<longrightarrow>
            variableReferences (visit fp b n s) =
              filter (\<lambda>(key, ref). v_scope ref \<noteq> Scope (scopeCounter s + 1))
                (variableReferences (visitEach fp cs (beforeChildren fp b n s)))) \<and>
         analyzeFileForGameHooks filePath (Some (sourceFile [constX, functionF [], xBaz])) =
           [\<lparr>d_hookName = ''Foo'', propertyChain = [''bar''],
             fullExpression = ''gameHooks.Foo.bar'', d_file = filePath, line = 1,
             isDirect = True, sourceVariable = None\<rparr>,
            \<lparr>d_hookName = ''Foo'', propertyChain = [],
             fullExpression = ''gameHooks.Foo'', d_file = filePath, line = 1,
             isDirect = True, sourceVariable = None\<rparr>]"
proof -
  let ?s = "visitEach fp cs (beforeChildren fp b n s)"
  have v: "visit fp b n s = exitScope ?s"
    using assms by (rule scope_node_visit)
  have nested: "\<forall>ref \<in> snd ` set (variableReferences (visit fp b n s)). v_scope ref \<noteq> Global"
    if "list_ex hasScopeNode cs"
  proof -
    from that have "currentScope ?s = Global"
      by (simp add: currentScope_visit)
    with v show ?thesis
      using exitScope_deletes_current [of _ _ ?s] by auto
  qed
  have leaf: "variableReferences (visit fp b n s) =
                filter (\<lambda>(key, ref). v_scope ref \<noteq> Scope (scopeCounter s + 1))
                  (variableReferences ?s)"
    if "\<not> list_ex hasScopeNode cs"
  proof -
    from assms have "isScopeNode n" by auto
    with that have "currentScope ?s = Scope (scopeCounter s + 1)"
      by (simp add: currentScope_visit currentScope_beforeChildren_scope)
    with v show ?thesis by (simp add: exitScope_def)
  qed
  have "analyzeFileForGameHooks filePath
      (Some (sourceFile [constX, functionF [], xBaz])) =
           [\<lparr>d_hookName = ''Foo'', propertyChain = [''bar''],
             fullExpression = ''gameHooks.Foo.bar'', d_file = filePath, line = 1,
             isDirect = True, sourceVariable = None\<rparr>,
            \<lparr>d_hookName = ''Foo'', propertyChain = [],
             fullExpression = ''gameHooks.Foo'', d_file = filePath, line = 1,
             isDirect = True, sourceVariable = None\<rparr>]"
    by (simp add: walk_simps)
  with nested leaf show ?thesis by (simp add: currentScope_exitScope)
qed

text \<open>
  An alias of scope \<open>global\<close> does not survive \<open>function f(){}\<close>, and it survives the
  block \<open>{}\<close>.
\<close>

theorem exitScope_resets_to_global_witness:
  "functionF [] \<in> {TsFunctionDeclaration [TsIdentifier ''f'', TsBlock []],
                    TsFunctionExpression [TsIdentifier ''f'', TsBlock []],
                    TsArrowFunction [TsIdentifier ''f'', TsBlock []],
                    TsBlock [TsIdentifier ''f'', TsBlock []]} \<and>
   list_ex hasScopeNode [TsIdentifier ''f'', TsBlock []] \<and>
   variableReferences
     (visit ''a.ts'' False (functionF [])
        (initialWalk\<lparr>variableReferences :=
           [(''x'', \<lparr>variableName = ''x'', v_hookName = ''Foo'', v_propertyChain = [''bar''],
                     fullGameHookExpression = ''gameHooks.Foo.bar'', declarationLine = 1,
                     v_scope = Global\<rparr>)]\<rparr>)) = [] \<and>
   TsBlock [] \<in> {TsFunctionDeclaration [], TsFunctionExpression [], TsArrowFunction [],
                  TsBlock []} \<and>
   \<not> list_ex hasScopeNode [] \<and>
   variableReferences
     (visit ''a.ts'' False (TsBlock [])
        (initialWalk\<lparr>variableReferences :=
           [(''x'', \<lparr>variableName = ''x'', v_hookName = ''Foo'', v_propertyChain = [''bar''],
                     fullGameHookExpression = ''gameHooks.Foo.bar'', declarationLine = 1,
                     v_scope = Global\<rparr>)]\<rparr>)) =
     [(''x'', \<lparr>variableName = ''x'', v_hookName = ''Foo'', v_propertyChain = [''bar''],
               fullGameHookExpression = ''gameHooks.Foo.bar'', declarationLine = 1,
               v_scope = Global\<rparr>)]"
proof -
  let ?x = "(''x'', \<lparr>variableName = ''x'', v_hookName = ''Foo'', v_propertyChain = [''bar''],
                     fullGameHookExpression = ''gameHooks.Foo.bar'', declarationLine = 1,
                     v_scope = Global\<rparr>)"
  let ?s = "initialWalk\<lparr>variableReferences := [?x]\<rparr>"
  have n: "functionF [] \<in> {TsFunctionDeclaration [TsIdentifier ''f'', TsBlock []],
                    TsFunctionExpression [TsIdentifier ''f'', TsBlock []],
                    TsArrowFunction [TsIdentifier ''f'', TsBlock []],
                    TsBlock [TsIdentifier ''f'', TsBlock []]}"
    by (simp add: functionF_def)
  have cs: "list_ex hasScopeNode [TsIdentifier ''f'', TsBlock []]" by simp
  have after: "variableReferences
                 (visitEach ''a.ts'' [TsIdentifier ''f'', TsBlock []]
                    (beforeChildren ''a.ts'' False (functionF []) ?s)) = [?x]"
    by (simp add: walk_simps)
  from exitScope_resets_to_global [OF n, of ?s "''a.ts''" False "''a.ts''"] cs
  have "\<forall>ref \<in> snd ` set (variableReferences (visit ''a.ts'' False (functionF []) ?s)).
          v_scope ref \<noteq> Global"
    by blast
  moreover have "set (variableReferences (visit ''a.ts'' False (functionF []) ?s)) \<subseteq> {?x}"
    using after by (simp add: functionF_def afterChildren_def exitScope_def)
  ultimately have f: "variableReferences (visit ''a.ts'' False (functionF []) ?s) = []"
    by (cases "variableReferences (visit ''a.ts'' False (functionF []) ?s)") auto
  have m: "TsBlock [] \<in> {TsFunctionDeclaration [], TsFunctionExpression [], TsArrowFunction [],
                  TsBlock []}"
    by simp
  have l: "\<not> list_ex hasScopeNode []" by simp
  from exitScope_resets_to_global [OF m, of ?s "''a.ts''" False "''a.ts''"] l
  have "variableReferences (visit ''a.ts'' False (TsBlock []) ?s) =
          filter (\<lambda>(key, ref). v_scope ref \<noteq> Scope (scopeCounter ?s + 1))
            (variableReferences (visitEach ''a.ts'' [] (beforeChildren ''a.ts'' False (TsBlock []) ?s)))"
    by blast
  then have b: "variableReferences (visit ''a.ts'' False (TsBlock []) ?s) = [?x]"
    by (simp add: walk_simps)
  from n cs f m l b show ?thesis by (simp only: simp_thms)
qed

text \<open>
  \<open>const x = gameHooks.Foo.bar; {} x.baz;\<close>: the block contains no function or block,
  so leaving it deletes the aliases of its own scope only, and \<open>x.baz\<close> is reported.
\<close>

theorem exitScope_resets_to_global_counterexample:
  "filter (\<lambda>d. \<not> isDirect d)
     (analyzeFileForGameHooks ''a.ts'' (Some (sourceFile [constX, TsBlock [], xBaz]))) =
     [\<lparr>d_hookName = ''Foo'', propertyChain = [''bar'', ''baz''],
       fullExpression = ''x.baz'', d_file = ''a.ts'', line = 1,
       isDirect = False, sourceVariable = Some ''x''\<rparr>]"
  by (simp add: walk_simps)

section \<open>Properties of the client class recoverer\<close>

lemmas recover_simps =
  parseClientForClasses_def recoverClasses_def enter_def openCandidate_def openClass_def
  ensureClass_def modifyClass_def emptyClass_def addMethod_def addAccessor_def markStatic_def
  isShortName_def isLetter_def hasMembers_def set_add_def Let_def

lemma recover_classAB:
  "recoverClasses classAB =
     [\<lparr>name = ''B'', properties = [], methods = [''m''], staticProperties = [],
       staticMethods = [], hasInstance = False, hasManager = False\<rparr>]"
  by (simp add: classAB_def recover_simps)

text \<open>
  C7. Every class in the list returned by the recoverer has at least one recorded
  member: a property, a method, a static property or a static method.
\<close>

theorem empty_candidates_discarded:
  assumes "c \<in> set (parseClientForClasses parse' clientCode)"
  shows "properties c \<noteq> [] \<or> methods c \<noteq> [] \<or> staticProperties c \<noteq> [] \<or>
         staticMethods c \<noteq> []"
  using assms
  by (auto simp: parseClientForClasses_def recoverClasses_def hasMembers_def
           split: option.splits)

text \<open>
  In \<open>class A {} class B { m(){} }\<close> the candidate \<open>A\<close> is opened and recorded nothing: it
  is not in the result.
\<close>

theorem empty_candidates_discarded_witness:
  "parseClientForClasses (\<lambda>code. Some classAB) ''class A {} class B { m(){} }'' =
     [\<lparr>name = ''B'', properties = [], methods = [''m''], staticProperties = [],
       staticMethods = [], hasInstance = False, hasManager = False\<rparr>] \<and>
   map fst (classMap (walk classAB \<lparr>currentClass = None, classMap = []\<rparr>)) = [''A'', ''B''] \<and>
   (methods \<lparr>name = ''B'', properties = [], methods = [''m''], staticProperties = [],
       staticMethods = [], hasInstance = False, hasManager = False\<rparr> \<noteq> [])"
proof -
  let ?b = "\<lparr>name = ''B'', properties = [], methods = [''m''], staticProperties = [],
       staticMethods = [], hasInstance = False, hasManager = False\<rparr>"
  have res: "parseClientForClasses (\<lambda>code. Some classAB) ''class A {} class B { m(){} }'' = [?b]"
    by (simp add: parseClientForClasses_def recover_classAB)
  then have "?b \<in> set (parseClientForClasses (\<lambda>code. Some classAB)
                         ''class A {} class B { m(){} }'')"
    by simp
  from empty_candidates_discarded [OF this]
  have "methods ?b \<noteq> []" by simp
  moreover have "map fst (classMap (walk classAB \<lparr>currentClass = None, classMap = []\<rparr>)) =
                   [''A'', ''B'']"
    by (simp add: classAB_def recover_simps)
  ultimately show ?thesis using res by blast
qed

subsection \<open>Recorded members are never removed\<close>

lemma membersKept_refl: "membersKept c c"
  by (simp add: membersKept_def)

lemma membersKept_trans: "membersKept a b \<Longrightarrow> membersKept b c \<Longrightarrow> membersKept a c"
  by (auto simp: membersKept_def)

lemma classesKept_refl: "classesKept cm cm"
  by (auto simp: classesKept_def membersKept_refl)

lemma classesKept_trans: "classesKept a b \<Longrightarrow> classesKept b c \<Longrightarrow> classesKept a c"
  unfolding classesKept_def by (meson membersKept_trans)

lemma classesKept_ensureClass: "classesKept cm (ensureClass k cm)"
  by (auto simp: classesKept_def ensureClass_def membersKept_refl split: option.splits)

lemma classesKept_modifyClass:
  assumes "\<And>c. membersKept c (f c)"
  shows "classesKept cm (modifyClass k f cm)"
  using assms
  by (auto simp: classesKept_def modifyClass_def update_conv' membersKept_refl
           split: option.splits)

lemma classesKept_map:
  assumes "\<And>c. membersKept c (f c)"
  shows "classesKept cm (map (\<lambda>(k, c). (k, f c)) cm)"
proof -
  have "map_of (map (\<lambda>(k, c). (k, f c)) cm) = map_option f \<circ> map_of cm"
    by (induction cm) (auto simp: fun_eq_iff)
  with assms show ?thesis by (auto simp: classesKept_def)
qed

lemma set_add_set: "set (set_add x xs) = insert x (set xs)"
  by (auto simp: set_add_def)

lemma membersKept_addMethod: "membersKept c (addMethod b m c)"
  by (auto simp: membersKept_def addMethod_def Let_def set_add_set)

lemma membersKept_markStatic: "membersKept c (markStatic p c)"
  by (auto simp: membersKept_def markStatic_def Let_def set_add_set)

lemma membersKept_addAccessor: "membersKept c (addAccessor b p c)"
  by (auto simp: addAccessor_def membersKept_markStatic)
     (auto simp: membersKept_def set_add_set)

lemma membersKept_add_method: "membersKept c (c\<lparr>methods := set_add m (methods c)\<rparr>)"
  by (auto simp: membersKept_def set_add_set)

lemma membersKept_add_property: "membersKept c (c\<lparr>properties := set_add p (properties c)\<rparr>)"
  by (auto simp: membersKept_def set_add_set)

lemma classesKept_openCandidate: "classesKept (classMap s) (classMap (openCandidate k s))"
  by (simp add: openCandidate_def classesKept_ensureClass classesKept_refl)

lemma classesKept_rules:
  "classesKept (classMap s) (classMap (classDeclarationRule n s))"
  "classesKept (classMap s) (classMap (variableDeclaratorRule n s))"
  "classesKept (classMap s) (classMap (functionDeclarationRule n s))"
  "classesKept (classMap s) (classMap (methodDefinitionRule n s))"
  "classesKept (classMap s) (classMap (accessorRule n s))"
  "classesKept (classMap s) (classMap (prototypeAssignmentRule n s))"
  "classesKept (classMap s) (classMap (staticAssignmentRule n s))"
  "classesKept (classMap s) (classMap (thisAssignmentRule n s))"
proof -
  show "classesKept (classMap s) (classMap (classDeclarationRule n s))"
    by (induction n s rule: classDeclarationRule.induct)
       (simp_all add: classesKept_openCandidate classesKept_refl)
  show "classesKept (classMap s) (classMap (variableDeclaratorRule n s))"
    by (induction n s rule: variableDeclaratorRule.induct)
       (simp_all add: classesKept_openCandidate classesKept_refl)
  show "classesKept (classMap s) (classMap (functionDeclarationRule n s))"
    by (induction n s rule: functionDeclarationRule.induct)
       (simp_all add: classesKept_openCandidate classesKept_refl)
  show "classesKept (classMap s) (classMap (methodDefinitionRule n s))"
    by (induction n s rule: methodDefinitionRule.induct)
       (simp_all add: classesKept_modifyClass membersKept_addMethod classesKept_refl
          split: option.splits)
  show "classesKept (classMap s) (classMap (accessorRule n s))"
    by (induction n s rule: accessorRule.induct)
       (simp_all add: classesKept_modifyClass membersKept_addAccessor classesKept_refl
          split: option.splits)
  show "classesKept (classMap s) (classMap (prototypeAssignmentRule n s))"
    by (induction n s rule: prototypeAssignmentRule.induct)
       (auto simp: classesKept_refl
          intro: classesKept_trans [OF classesKept_ensureClass classesKept_modifyClass]
                 membersKept_add_method)
  show "classesKept (classMap s) (classMap (staticAssignmentRule n s))"
    by (induction n s rule: staticAssignmentRule.induct)
       (auto simp: classesKept_refl
          intro: classesKept_trans [OF classesKept_ensureClass classesKept_modifyClass]
                 membersKept_markStatic)
  show "classesKept (classMap s) (classMap (thisAssignmentRule n s))"
    by (induction n s rule: thisAssignmentRule.induct)
       (auto simp: classesKept_refl split: option.splits
          intro: classesKept_modifyClass classesKept_map membersKept_add_property)
qed

lemma classesKept_enter: "classesKept (classMap s) (classMap (enter n s))"
  unfolding enter_def
  by (rule classesKept_trans [OF _ classesKept_rules(8)],
      rule classesKept_trans [OF _ classesKept_rules(7)],
      rule classesKept_trans [OF _ classesKept_rules(6)],
      rule classesKept_trans [OF _ classesKept_rules(5)],
      rule classesKept_trans [OF _ classesKept_rules(4)],
      rule classesKept_trans [OF _ classesKept_rules(3)],
      rule classesKept_trans [OF _ classesKept_rules(2)],
      rule classesKept_rules(1))

lemma classMap_leave: "classMap (leave n s) = classMap s"
  by (induction n s rule: leave.induct) simp_all

lemma classesKept_walk:
  "classesKept (classMap s) (classMap (walk n s))"
  "classesKept (classMap s) (classMap (walkEach ns s))"
  "classesKept (classMap s) (classMap (walkOptional opt s))"
proof (induction n s and ns s and opt s rule: walk_walkEach_walkOptional.induct)
  case (1 x s)
  show ?case by (simp add: classMap_leave classesKept_enter)
next
  case (2 s)
  show ?case by (simp add: classMap_leave classesKept_enter)
next
  case (3 ob pr s)
  then show ?case
    by (simp add: classMap_leave) (blast intro: classesKept_trans classesKept_enter)
next
  case (4 cs s)
  then show ?case
    by (simp add: classMap_leave) (blast intro: classesKept_trans classesKept_enter)
next
  case (5 i cs s)
  then show ?case
    by (simp add: classMap_leave) (blast intro: classesKept_trans classesKept_enter)
next
  case (6 i init s)
  then show ?case
    by (simp add: classMap_leave) (blast intro: classesKept_trans classesKept_enter)
next
  case (7 i cs s)
  then show ?case
    by (simp add: classMap_leave) (blast intro: classesKept_trans classesKept_enter)
next
  case (8 isStatic kind k v s)
  then show ?case
    by (simp add: classMap_leave) (blast intro: classesKept_trans classesKept_enter)
next
  case (9 l r s)
  then show ?case
    by (simp add: classMap_leave) (blast intro: classesKept_trans classesKept_enter)
next
  case (10 cs s)
  then show ?case
    by (simp add: classMap_leave) (blast intro: classesKept_trans classesKept_enter)
next
  case (11 s)
  show ?case by (simp add: classesKept_refl)
next
  case (12 n ns s)
  then show ?case by simp (blast intro: classesKept_trans)
next
  case (13 s)
  show ?case by (simp add: classesKept_refl)
next
  case (14 n s)
  then show ?case by simp
qed

subsection \<open>Accessors\<close>

lemma enter_accessor:
  assumes "openClass s = Some c" and "kind = KindGet \<or> kind = KindSet"
  shows "\<exists>cl. map_of (classMap (enter (EsMethodDefinition isStatic kind (EsIdentifier k) v) s)) c
               = Some cl \<and>
           (if isStatic then k \<in> set (staticMethods cl) \<and> k \<in> set (staticProperties cl)
            else k \<in> set (methods cl) \<and> k \<in> set (properties cl))"
proof -
  from assms(1) obtain cl0 where cur: "currentClass s = Some c" and c: "c \<noteq> []"
    and cl0: "map_of (classMap s) c = Some cl0"
    by (auto simp: openClass_def split: option.splits if_splits)
  let ?s1 = "methodDefinitionRule (EsMethodDefinition isStatic kind (EsIdentifier k) v) s"
  have s1: "map_of (classMap ?s1) c = Some (addMethod isStatic k cl0)" "currentClass ?s1 = Some c"
    using assms(1) cl0 cur by (simp_all add: modifyClass_def update_conv')
  then have open1: "openClass ?s1 = Some c"
    using c by (simp add: openClass_def)
  have "map_of (classMap (enter (EsMethodDefinition isStatic kind (EsIdentifier k) v) s)) c =
          Some (addAccessor isStatic k (addMethod isStatic k cl0))"
    using assms(2) open1 s1 by (auto simp: enter_def modifyClass_def update_conv')
  moreover have "if isStatic
      then k \<in> set (staticMethods (addAccessor isStatic k (addMethod isStatic k cl0))) \<and>
           k \<in> set (staticProperties (addAccessor isStatic k (addMethod isStatic k cl0)))
      else k \<in> set (methods (addAccessor isStatic k (addMethod isStatic k cl0))) \<and>
           k \<in> set (properties (addAccessor isStatic k (addMethod isStatic k cl0)))"
    by (auto simp: addAccessor_def addMethod_def markStatic_def Let_def set_add_set)
  ultimately show ?thesis by blast
qed

text \<open>
  C10. When a candidate \<open>c\<close> is open, walking a getter or setter with an identifier key
  \<open>k\<close> records \<open>k\<close> both as a method and as a property of \<open>c\<close> (static or instance,
  following the accessor), and it stays recorded whatever nodes \<open>rest\<close> are walked
  afterwards.
\<close>

theorem accessor_recorded_twice:
  assumes "openClass s = Some c" and "kind = KindGet \<or> kind = KindSet"
  shows "\<exists>cl. map_of (classMap (walkEach rest
                  (walk (EsMethodDefinition isStatic kind (EsIdentifier k) v) s))) c = Some cl \<and>
           (if isStatic then k \<in> set (staticMethods cl) \<and> k \<in> set (staticProperties cl)
            else k \<in> set (methods cl) \<and> k \<in> set (properties cl))"
proof -
  let ?n = "EsMethodDefinition isStatic kind (EsIdentifier k) v"
  from enter_accessor [OF assms] obtain cl where
    cl: "map_of (classMap (enter ?n s)) c = Some cl"
    and mem: "if isStatic then k \<in> set (staticMethods cl) \<and> k \<in> set (staticProperties cl)
              else k \<in> set (methods cl) \<and> k \<in> set (properties cl)"
    by blast
  let ?s1 = "walk (EsIdentifier k) (enter ?n s)"
  have a: "classesKept (classMap (enter ?n s)) (classMap ?s1)"
    by (rule classesKept_walk)
  have b: "classesKept (classMap ?s1) (classMap (walk v ?s1))"
    by (rule classesKept_walk)
  have e: "classMap (walk ?n s) = classMap (walk v ?s1)"
    by (simp add: classMap_leave)
  have "classesKept (classMap (enter ?n s)) (classMap (walk ?n s))"
    unfolding e using a b by (rule classesKept_trans)
  moreover have "classesKept (classMap (walk ?n s)) (classMap (walkEach rest (walk ?n s)))"
    by (rule classesKept_walk)
  ultimately have "classesKept (classMap (enter ?n s)) (classMap (walkEach rest (walk ?n s)))"
    by (rule classesKept_trans)
  with cl obtain cl' where
    "map_of (classMap (walkEach rest (walk ?n s))) c = Some cl'" "membersKept cl cl'"
    by (auto simp: classesKept_def)
  with mem show ?thesis
    by (auto simp: membersKept_def split: if_splits)
qed

text \<open>
  \<open>class A { get foo(){} }\<close>: the getter is a property and a method of \<open>A\<close>, and it earns
  2 + 1 points for a usage that requires the property \<open>foo\<close> and the method \<open>foo\<close>.
\<close>

theorem accessor_recorded_twice_witness:
  "openClass \<lparr>currentClass = Some ''A'', classMap = [(''A'', emptyClass ''A'')]\<rparr> = Some ''A'' \<and>
   (KindGet = KindGet \<or> KindGet = KindSet) \<and>
   map_of (classMap (walkEach []
      (walk (EsMethodDefinition False KindGet (EsIdentifier ''foo'')
               (EsFunctionExpression [EsOther []]))
         \<lparr>currentClass = Some ''A'', classMap = [(''A'', emptyClass ''A'')]\<rparr>))) ''A'' =
     Some \<lparr>name = ''A'', properties = [''foo''], methods = [''foo''], staticProperties = [],
           staticMethods = [], hasInstance = False, hasManager = False\<rparr> \<and>
   recoverClasses classWithGetter =
     [\<lparr>name = ''A'', properties = [''foo''], methods = [''foo''], staticProperties = [],
       staticMethods = [], hasInstance = False, hasManager = False\<rparr>] \<and>
   matchScore (calculateMatchScore
      \<lparr>u_properties = [''foo''], u_methods = [''foo''], u_fullExpressions = [], u_files = [],
        fromDirectAccess = True, fromHookRegistration = False\<rparr>
      \<lparr>name = ''A'', properties = [''foo''], methods = [''foo''], staticProperties = [],
        staticMethods = [], hasInstance = False, hasManager = False\<rparr> ''Thing'') = 3"
proof -
  let ?s = "\<lparr>currentClass = Some ''A'', classMap = [(''A'', emptyClass ''A'')]\<rparr>"
  let ?n = "EsMethodDefinition False KindGet (EsIdentifier ''foo'')
              (EsFunctionExpression [EsOther []])"
  have o: "openClass ?s = Some ''A''" by (simp add: openClass_def)
  have k: "KindGet = KindGet \<or> KindGet = KindSet" by simp
  from accessor_recorded_twice [OF o k, of "[]" False "''foo''" "EsFunctionExpression [EsOther []]"]
  obtain cl where "map_of (classMap (walkEach [] (walk ?n ?s))) ''A'' = Some cl"
    "''foo'' \<in> set (methods cl) \<and> ''foo'' \<in> set (properties cl)"
    by auto
  moreover have "map_of (classMap (walkEach [] (walk ?n ?s))) ''A'' =
     Some \<lparr>name = ''A'', properties = [''foo''], methods = [''foo''], staticProperties = [],
           staticMethods = [], hasInstance = False, hasManager = False\<rparr>"
    by (simp add: recover_simps)
  moreover have "recoverClasses classWithGetter =
     [\<lparr>name = ''A'', properties = [''foo''], methods = [''foo''], staticProperties = [],
       staticMethods = [], hasInstance = False, hasManager = False\<rparr>]"
    by (simp add: classWithGetter_def recover_simps)
  moreover have "matchScore (calculateMatchScore
      \<lparr>u_properties = [''foo''], u_methods = [''foo''], u_fullExpressions = [], u_files = [],
        fromDirectAccess = True, fromHookRegistration = False\<rparr>
      \<lparr>name = ''A'', properties = [''foo''], methods = [''foo''], staticProperties = [],
        staticMethods = [], hasInstance = False, hasManager = False\<rparr> ''Thing'') = 3"
    by (simp add: score_other_hook hasProperty_def hasMethod_def bonusPoints_def)
  ultimately show ?thesis using o k by blast
qed

section \<open>The aggregation does not depend on the order of the files\<close>

subsection \<open>Loops with errors as folds\<close>

lemma liftE_simps: "liftE f x (Inl e) = Inl e" "liftE f x (Inr s) = f x s"
  by (simp_all add: liftE_def)

lemma fold_liftE_Inl: "fold (liftE f) xs (Inl e) = Inl e"
  by (induction xs) (simp_all add: liftE_simps)

lemma foldE_fold: "foldE f xs s = fold (liftE f) xs (Inr s)"
  by (induction xs arbitrary: s) (simp_all add: liftE_simps fold_liftE_Inl split: sum.splits)


subsection \<open>The loop over the dependencies\<close>







lemma aggregates_None: "aggregates us k = None \<longleftrightarrow> map_of us k = None"
  by (simp add: aggregates_def)

lemma aggregates_Some: "map_of us k = Some v \<Longrightarrow> aggregates us k = Some (aggregateOf v)"
  by (simp add: aggregates_def)



subsection \<open>The loop over the registrations of the files\<close>








subsection \<open>The loop that completes the usage with the registrations\<close>




subsection \<open>The order of \<open>Object.entries\<close>\<close>

lemma objectEntries_example:
  "objectEntries [(''b'', 1 :: nat), (''10'', 2), (''2'', 3), (''007'', 4)] =
     [(''2'', 3), (''10'', 2), (''b'', 1), (''007'', 4)]"
  by (simp add: objectEntries_def isArrayIndex_def isDigit_def decimalValue_def)

subsection \<open>Permuting the files\<close>











lemmas collect_simps =
  collectUsage_def allHookRegistrations_def allDependencies_def
  analyzeFileForHookRegistrations_def visitRegistrations_def registrationStep_def
  recordRegistration_def objGet_def objectPrototypeKeys_def emptyRegistration_def
  recordDependency_def segmentStep_def classifySegment_def mergeRegistration_def
  mergeFileRegistration_def set_add_def registerFooUpdate_def fooQux_def
  registerHookStatement_def objectEntries_def isArrayIndex_def isDigit_def

subsection \<open>Two call-sites of the same hook\<close>











section \<open>A failing fetch\<close>

lemma obtainGameClient_fails:
  assumes "fetchAssets n = Inl e \<or>
           (\<exists>v. fetchAssets n = Inr v \<and> 0 < v \<and> fetchClient n v = Inl e)"
  shows "obtainGameClient n True db = Inl e"
  using assms by (auto simp: obtainGameClient_def Let_def)

text \<open>
  C8, as the code has it. When fetching the asset manifest fails, or fetching the bundle
  of the announced version fails, \<open>obtainGameClient\<close> fails with that error at once.
  The run catches it: unless the aggregation itself has thrown, the run completes
  normally with the usage records, the error reported and no suggestion.
\<close>

theorem fetch_failure_is_caught:
  assumes "fetchAssets (net env) = Inl e \<or>
           (\<exists>v. fetchAssets (net env) = Inr v \<and> 0 < v \<and> fetchClient (net env) v = Inl e)"
  shows "obtainGameClient (net env) True (cache env) = Inl e \<and>
         analyzeGameHookDependencies env =
           (case collectUsage (relative env) (files env) of
              Inl e' \<Rightarrow> Inl e'
            | Inr us \<Rightarrow> Inr \<lparr>usage = us, suggestions = [], reported = [e]\<rparr>)"
  using obtainGameClient_fails [OF assms, of "cache env"]
  by (simp add: analyzeGameHookDependencies_def Let_def split: sum.splits)

theorem fetch_failure_is_caught_witness:
  "fetchAssets (net (offline [])) = Inl (FetchError ''fetch failed'') \<and>
   obtainGameClient (net (offline [])) True (cache (offline [])) =
     Inl (FetchError ''fetch failed'') \<and>
   analyzeGameHookDependencies (offline []) =
     Inr \<lparr>usage = [], suggestions = [], reported = [FetchError ''fetch failed'']\<rparr>"
proof -
  have f: "fetchAssets (net (offline [])) = Inl (FetchError ''fetch failed'')"
    by (simp add: offline_def)
  then have "fetchAssets (net (offline [])) = Inl (FetchError ''fetch failed'') \<or>
    (\<exists>v. fetchAssets (net (offline [])) = Inr v \<and> 0 < v \<and>
         fetchClient (net (offline [])) v = Inl (FetchError ''fetch failed''))"
    by simp
  from fetch_failure_is_caught [OF this]
  have "obtainGameClient (net (offline [])) True (cache (offline [])) =
          Inl (FetchError ''fetch failed'')"
    and "analyzeGameHookDependencies (offline []) =
           (case collectUsage (relative (offline [])) (files (offline [])) of
              Inl e' \<Rightarrow> Inl e'
            | Inr us \<Rightarrow> Inr \<lparr>usage = us, suggestions = [],
                               reported = [FetchError ''fetch failed'']\<rparr>)"
    by simp_all
  moreover have "collectUsage (relative (offline [])) (files (offline [])) = Inr []"
    by (simp add: offline_def collect_simps)
  ultimately show ?thesis using f by simp
qed

text \<open>
  The fetch is rejected and the run over a file with \<open>const x = gameHooks.Foo.bar; x.baz;\<close>
  resolves with the usage records: it does not end in an error.
\<close>

theorem fetch_failure_counterexample:
  "analyzeGameHookDependencies (offline [(''a.ts'', Some (sourceFile [constX, xBaz]))]) =
     Inr \<lparr>usage = [(''Foo'', \<lparr>u_properties = [''bar'', ''baz''], u_methods = [],
                               u_fullExpressions = [''gameHooks.Foo.bar'', ''gameHooks.Foo'',
                                                    ''x.baz''],
                               u_files = [''a.ts''], fromDirectAccess = True,
                               fromHookRegistration = False\<rparr>)],
          suggestions = [], reported = [FetchError ''fetch failed'']\<rparr>"
  by (simp add: analyzeGameHookDependencies_def obtainGameClient_def offline_def
        collect_simps walk_simps)

end
